theory Spec2Isabelle
  imports Main "HOL-Library.Word" "HOL-Library.Signed_Division"
begin

unbundle bit_operations_syntax

section \<open>SDL\_systimer.c: the tick counter, the performance counter and the delay\<close>

text \<open>
  The file holds two implementations, selected by the preprocessor: the Windows one
  (\<^verbatim>\<open>#ifdef _WIN32\<close>, lines 23 to 198) and the POSIX one (\<^verbatim>\<open>#else\<close>, lines 199 to 452).
  Both are embedded.  Where the two define a function of the same name, the Windows
  definition carries the suffix \<open>_win\<close> and the POSIX one the suffix \<open>_posix\<close>.

  Every call of the operating system is an input of the model: each API function takes an
  environment record with one field per call site, holding what the operating system
  answers there during that API call.  Calls whose only effect is on the operating system
  (\<^verbatim>\<open>timeBeginPeriod\<close>, \<^verbatim>\<open>timeEndPeriod\<close>, \<^verbatim>\<open>Sleep\<close>) are appended to a log kept in the
  state.
\<close>

type_synonym Uint32 = "32 word"
type_synonym Uint64 = "64 word"

subsection \<open>Windows branch: state\<close>

text \<open>
  \<^verbatim>\<open>DWORD\<close> and \<^verbatim>\<open>UINT\<close> are unsigned 32-bit integers.  \<^verbatim>\<open>LARGE_INTEGER.QuadPart\<close> is
  a signed 64-bit integer (\<^verbatim>\<open>LONGLONG\<close>): it is a \<open>64 word\<close> read with \<open>sint\<close>, divided
  with the truncating \<open>sdiv\<close>.  Its subtraction and multiplication are the
  two's-complement ones of the hardware (the word operations); where the mathematical
  result leaves the signed 64-bit range, ISO C leaves the behaviour undefined and the
  model shows what the machine instruction delivers.
\<close>

type_synonym DWORD = "32 word"
type_synonym UINT = "32 word"
type_synonym LONGLONG = "64 word"

datatype os_call = TimeBeginPeriod UINT | TimeEndPeriod UINT | Sleep DWORD

text \<open>
  The file-scope statics of the Windows branch (lines 33 to 41), the function-scope static
  \<^verbatim>\<open>timer_period\<close> of \<^verbatim>\<open>SDL_SetSystemTimerResolution\<close> (line 47), and the two things
  the branch changes outside itself: whether \<^verbatim>\<open>SDL_TimerResolutionChanged\<close> is registered
  with the hint registry, and the log of the timer-resolution and sleep calls made to the
  operating system, oldest first.
\<close>

record win_state =
  start :: DWORD
  ticks_started_win :: bool
  hires_timer_available :: bool
  hires_start_ticks :: LONGLONG
  hires_ticks_per_second :: LONGLONG
  timer_period :: UINT
  hint_callback_registered :: bool
  os_calls :: "os_call list"

text \<open>The state at program start: the initialisers of lines 33, 34 and 47; statics
  without an initialiser are zero.\<close>

definition win_initial :: win_state where
  "win_initial =
     \<lparr>start = 0, ticks_started_win = False, hires_timer_available = False,
      hires_start_ticks = 0, hires_ticks_per_second = 0, timer_period = 0,
      hint_callback_registered = False, os_calls = []\<rparr>"

definition timeEndPeriod :: "UINT \<Rightarrow> win_state \<Rightarrow> win_state" where
  "timeEndPeriod p s = s\<lparr>os_calls := os_calls s @ [TimeEndPeriod p]\<rparr>"

definition timeBeginPeriod :: "UINT \<Rightarrow> win_state \<Rightarrow> win_state" where
  "timeBeginPeriod p s = s\<lparr>os_calls := os_calls s @ [TimeBeginPeriod p]\<rparr>"

subsection \<open>Windows branch: the timer resolution\<close>

text \<open>Lines 43 to 61, in the build without \<^verbatim>\<open>__WINRT__\<close>.\<close>

definition SDL_SetSystemTimerResolution :: "UINT \<Rightarrow> win_state \<Rightarrow> win_state" where
  "SDL_SetSystemTimerResolution uPeriod s =
     (if uPeriod \<noteq> timer_period s then
        let s1 = (if timer_period s \<noteq> 0 then timeEndPeriod (timer_period s) s else s);
            s2 = s1\<lparr>timer_period := uPeriod\<rparr>;
            s3 = (if timer_period s2 \<noteq> 0 then timeBeginPeriod (timer_period s2) s2 else s2)
        in s3
      else s)"

subsection \<open>Windows branch: the resolution hint\<close>

text \<open>
  A \<^verbatim>\<open>const char *\<close> argument is either the null pointer or an address together with
  the characters stored there up to the terminating NUL.  The C comparison
  \<^verbatim>\<open>oldValue != hint\<close> compares the pointers, not the characters.
\<close>

datatype c_string = NULL | Ptr nat string

fun same_pointer :: "c_string \<Rightarrow> c_string \<Rightarrow> bool" where
  "same_pointer NULL NULL = True"
| "same_pointer (Ptr a _) (Ptr b _) = (a = b)"
| "same_pointer _ _ = False"

text \<open>
  Modelled from the spec: the character classes and the digit loop of the numeric parse
  \<^verbatim>\<open>SDL_atoi\<close>, which is described below.
\<close>

definition is_digit :: "char \<Rightarrow> bool" where
  "is_digit c = (c \<in> set ''0123456789'')"

definition is_space :: "char \<Rightarrow> bool" where
  "is_space c = (c \<in> set [CHR '' '', CHR 0x09, CHR 0x0A, CHR 0x0B, CHR 0x0C, CHR 0x0D])"

fun parse_digits :: "nat \<Rightarrow> string \<Rightarrow> nat" where
  "parse_digits acc [] = acc"
| "parse_digits acc (c # cs) =
     (if is_digit c then parse_digits (acc * 10 + (of_char c - 48)) cs else acc)"

text \<open>
  Modelled from the spec: \<^verbatim>\<open>SDL_atoi\<close> is declared in SDL's standard-library header and
  defined outside \<^verbatim>\<open>src/\<close>.  The spec describes it as the numeric parse of the hint
  registry, \<^verbatim>\<open>string -> i32, invalid -> 0\<close>: leading white space is skipped, a sign is
  read, then decimal digits up to the first other character; text with no digit there
  parses to 0.
\<close>

definition SDL_atoi :: "string \<Rightarrow> int" where
  "SDL_atoi s =
     (case dropWhile is_space s of
        [] \<Rightarrow> 0
      | c # cs \<Rightarrow>
          if c = CHR ''-'' then - int (parse_digits 0 cs)
          else if c = CHR ''+'' then int (parse_digits 0 cs)
          else int (parse_digits 0 (c # cs)))"

text \<open>
  Lines 63 to 77.  The parameters \<^verbatim>\<open>userdata\<close> and \<^verbatim>\<open>name\<close> are not used by the body
  and are left out.  \<open>hint_period\<close> is the value the body gives \<^verbatim>\<open>uPeriod\<close> (lines 69 to
  73); the assignment converts the \<^verbatim>\<open>int\<close> of \<^verbatim>\<open>SDL_atoi\<close> to \<^verbatim>\<open>UINT\<close>.
\<close>

definition hint_period :: "c_string \<Rightarrow> UINT" where
  "hint_period hint =
     (case hint of
        NULL \<Rightarrow> 1
      | Ptr a cs \<Rightarrow> if cs \<noteq> [] then word_of_int (SDL_atoi cs) else 1)"

definition SDL_TimerResolutionChanged :: "c_string \<Rightarrow> c_string \<Rightarrow> win_state \<Rightarrow> win_state" where
  "SDL_TimerResolutionChanged oldValue hint s =
     (let uPeriod = hint_period hint
      in if uPeriod \<noteq> 0 \<or> \<not> same_pointer oldValue hint
         then SDL_SetSystemTimerResolution uPeriod s
         else s)"

text \<open>
  Modelled from the spec: \<^verbatim>\<open>SDL_AddHintCallback\<close> belongs to the hint registry, which is
  outside \<^verbatim>\<open>src/\<close>.  The spec gives the registry the operations
  \<^verbatim>\<open>registerChangeCallback\<close> and \<^verbatim>\<open>unregisterChangeCallback\<close> and says that it pushes the
  configured value through the registered callback at initialisation.  What it pushes
  while registering is an input: \<open>None\<close> when it does not call back,
  \<open>Some (oldValue, hint)\<close> when it calls \<^verbatim>\<open>SDL_TimerResolutionChanged\<close> with these two
  pointers.
\<close>

definition SDL_AddHintCallback :: "(c_string \<times> c_string) option \<Rightarrow> win_state \<Rightarrow> win_state" where
  "SDL_AddHintCallback pushed s =
     (let s1 = s\<lparr>hint_callback_registered := True\<rparr>
      in case pushed of
           None \<Rightarrow> s1
         | Some (oldValue, hint) \<Rightarrow> SDL_TimerResolutionChanged oldValue hint s1)"

text \<open>
  Modelled from the spec: \<^verbatim>\<open>SDL_DelHintCallback\<close>, the registry's
  \<^verbatim>\<open>unregisterChangeCallback\<close>, removes the registration.
\<close>

definition SDL_DelHintCallback :: "win_state \<Rightarrow> win_state" where
  "SDL_DelHintCallback s = s\<lparr>hint_callback_registered := False\<rparr>"

subsection \<open>Windows branch: the clocks\<close>

text \<open>
  What the operating system answers during one API call, one field per call site.
  \<^verbatim>\<open>QueryPerformanceFrequency\<close> and \<^verbatim>\<open>QueryPerformanceCounter\<close> answer \<open>Some v\<close> when
  they report success and store \<open>v\<close>, and \<open>None\<close> when they report failure and store
  nothing.  \<^verbatim>\<open>SDL_GetTicks\<close> does not look at the return value of
  \<^verbatim>\<open>QueryPerformanceCounter\<close> (line 130): its field is what \<^verbatim>\<open>hires_now\<close> holds after
  the call.
\<close>

record win_env =
  hint_pushed :: "(c_string \<times> c_string) option"
  init_QueryPerformanceFrequency :: "LONGLONG option"
  init_QueryPerformanceCounter :: "LONGLONG option"
  init_timeGetTime :: DWORD
  ticks_QueryPerformanceCounter :: LONGLONG
  ticks_timeGetTime :: DWORD
  perf_QueryPerformanceCounter :: "LONGLONG option"
  perf_QueryPerformanceFrequency :: "LONGLONG option"

text \<open>Lines 79 to 105.\<close>

definition SDL_TicksInit_win :: "win_env \<Rightarrow> win_state \<Rightarrow> win_state" where
  "SDL_TicksInit_win e s =
     (if ticks_started_win s then s
      else
        let s1 = s\<lparr>ticks_started_win := True\<rparr>;
            s2 = SDL_AddHintCallback (hint_pushed e) s1
        in case init_QueryPerformanceFrequency e of
             Some f \<Rightarrow>
               (let s3 = s2\<lparr>hires_ticks_per_second := f, hires_timer_available := True\<rparr>
                in case init_QueryPerformanceCounter e of
                     Some c \<Rightarrow> s3\<lparr>hires_start_ticks := c\<rparr>
                   | None \<Rightarrow> s3)
           | None \<Rightarrow> s2\<lparr>hires_timer_available := False, start := init_timeGetTime e\<rparr>)"

text \<open>Lines 107 to 117.\<close>

definition SDL_TicksQuit_win :: "win_state \<Rightarrow> win_state" where
  "SDL_TicksQuit_win s =
     (let s1 = SDL_DelHintCallback s;
          s2 = SDL_SetSystemTimerResolution 0 s1
      in s2\<lparr>start := 0, ticks_started_win := False\<rparr>)"

text \<open>
  The signed 64-bit division of line 134, truncating towards zero.  The processor traps
  when the divisor is 0, and when the quotient is not representable (the least value
  divided by \<open>-1\<close>); the trap is the fault \<open>DivideError\<close>.
\<close>

datatype fault = DivideError

definition sdiv64 :: "LONGLONG \<Rightarrow> LONGLONG \<Rightarrow> LONGLONG" where
  "sdiv64 a b = word_of_int (sint a sdiv sint b)"

definition divide_traps :: "LONGLONG \<Rightarrow> LONGLONG \<Rightarrow> bool" where
  "divide_traps a b = (b = 0 \<or> (a = - (2 ^ 63) \<and> b = - 1))"

text \<open>Lines 119 to 144.  The cast \<^verbatim>\<open>(DWORD)\<close> keeps the low 32 bits.\<close>

definition SDL_GetTicks_win :: "win_env \<Rightarrow> win_state \<Rightarrow> fault + (Uint32 \<times> win_state)" where
  "SDL_GetTicks_win e s0 =
     (let s = (if \<not> ticks_started_win s0 then SDL_TicksInit_win e s0 else s0)
      in if hires_timer_available s then
           let hires_now = ticks_QueryPerformanceCounter e;
               hires_now1 = hires_now - hires_start_ticks s;
               hires_now2 = hires_now1 * 1000
           in if divide_traps hires_now2 (hires_ticks_per_second s) then Inl DivideError
              else Inr (ucast (sdiv64 hires_now2 (hires_ticks_per_second s)), s)
         else
           let now = ticks_timeGetTime e
           in Inr (now - start s, s))"

text \<open>Lines 146 to 155.\<close>

definition SDL_GetPerformanceCounter_win ::
    "win_env \<Rightarrow> win_state \<Rightarrow> fault + (Uint64 \<times> win_state)" where
  "SDL_GetPerformanceCounter_win e s =
     (case perf_QueryPerformanceCounter e of
        None \<Rightarrow>
          (case SDL_GetTicks_win e s of
             Inl f \<Rightarrow> Inl f
           | Inr (t, s') \<Rightarrow> Inr (ucast t, s'))
      | Some counter \<Rightarrow> Inr (counter, s))"

text \<open>Lines 157 to 166.\<close>

definition SDL_GetPerformanceFrequency_win :: "win_env \<Rightarrow> win_state \<Rightarrow> Uint64 \<times> win_state" where
  "SDL_GetPerformanceFrequency_win e s =
     (case perf_QueryPerformanceFrequency e of
        None \<Rightarrow> (1000, s)
      | Some frequency \<Rightarrow> (frequency, s))"

text \<open>Lines 168 to 196, the branch that is compiled when \<^verbatim>\<open>Sleep\<close> is available.\<close>

definition SDL_Delay_win :: "win_env \<Rightarrow> Uint32 \<Rightarrow> win_state \<Rightarrow> win_state" where
  "SDL_Delay_win e ms s0 =
     (let s = (if \<not> ticks_started_win s0 then SDL_TicksInit_win e s0 else s0)
      in s\<lparr>os_calls := os_calls s @ [Sleep ms]\<rparr>)"

subsection \<open>POSIX branch: state\<close>

text \<open>
  The POSIX branch is embedded as it is compiled with \<^verbatim>\<open>HAVE_CLOCK_GETTIME\<close> and without
  \<^verbatim>\<open>__APPLE__\<close>, the configuration of an Android build.  (Without \<^verbatim>\<open>HAVE_CLOCK_GETTIME\<close>
  the code is the one embedded here with \<^verbatim>\<open>clock_gettime\<close> always failing.)

  \<^verbatim>\<open>time_t\<close> and \<^verbatim>\<open>long\<close> are signed; the fields of \<^verbatim>\<open>struct timespec\<close> and
  \<^verbatim>\<open>struct timeval\<close> are \<open>int\<close>, and the arithmetic on them is that of \<open>int\<close> with C's
  truncating division \<open>sdiv\<close>: clock readings are far from the bounds of a 64-bit
  \<^verbatim>\<open>long\<close>, and where \<^verbatim>\<open>long\<close> has 32 bits the wrapped result has the same low 32 bits.
  The conversions to \<^verbatim>\<open>Uint32\<close> and \<^verbatim>\<open>Uint64\<close> are reductions modulo \<open>2^32\<close> and \<open>2^64\<close>
  (\<open>word_of_int\<close>).  The field \<^verbatim>\<open>tv_sec\<close> of \<^verbatim>\<open>struct timeval\<close> is written \<open>tv_sec'\<close>.
\<close>

record timespec =
  tv_sec :: int
  tv_nsec :: int

record timeval =
  tv_sec' :: int
  tv_usec :: int

text \<open>The statics of lines 240 to 247.\<close>

record posix_state =
  start_ts :: timespec
  has_monotonic_time :: bool
  start_tv :: timeval
  ticks_started :: bool

definition posix_initial :: posix_state where
  "posix_initial =
     \<lparr>start_ts = \<lparr>tv_sec = 0, tv_nsec = 0\<rparr>, has_monotonic_time = False,
      start_tv = \<lparr>tv_sec' = 0, tv_usec = 0\<rparr>, ticks_started = False\<rparr>"

text \<open>
  What the operating system answers during one API call.  \<^verbatim>\<open>clock_gettime\<close> in
  \<^verbatim>\<open>SDL_TicksInit\<close> answers \<open>Some ts\<close> when it returns 0 and stores \<open>ts\<close>, \<open>None\<close> when it
  fails and stores nothing.  The other call sites do not look at the return value: their
  fields are what the structure \<^verbatim>\<open>now\<close> holds after the call.
\<close>

record posix_env =
  init_clock_gettime :: "timespec option"
  init_gettimeofday :: timeval
  now_clock_gettime :: timespec
  now_gettimeofday :: timeval

subsection \<open>POSIX branch: the clocks\<close>

text \<open>Lines 249 to 272.\<close>

definition SDL_TicksInit_posix :: "posix_env \<Rightarrow> posix_state \<Rightarrow> posix_state" where
  "SDL_TicksInit_posix e s =
     (if ticks_started s then s
      else
        let s1 = s\<lparr>ticks_started := True\<rparr>
        in case init_clock_gettime e of
             Some ts \<Rightarrow> s1\<lparr>start_ts := ts, has_monotonic_time := True\<rparr>
           | None \<Rightarrow> s1\<lparr>start_tv := init_gettimeofday e\<rparr>)"

text \<open>Lines 274 to 278.\<close>

definition SDL_TicksQuit_posix :: "posix_state \<Rightarrow> posix_state" where
  "SDL_TicksQuit_posix s = s\<lparr>ticks_started := False\<rparr>"

text \<open>Lines 280 to 319.\<close>

definition SDL_GetTicks_posix :: "posix_env \<Rightarrow> posix_state \<Rightarrow> Uint32 \<times> posix_state" where
  "SDL_GetTicks_posix e s0 =
     (let s = (if \<not> ticks_started s0 then SDL_TicksInit_posix e s0 else s0)
      in if has_monotonic_time s then
           let now = now_clock_gettime e
           in (word_of_int ((tv_sec now - tv_sec (start_ts s)) * 1000
                 + (tv_nsec now - tv_nsec (start_ts s)) sdiv 1000000), s)
         else
           let now = now_gettimeofday e
           in (word_of_int ((tv_sec' now - tv_sec' (start_tv s)) * 1000
                 + (tv_usec now - tv_usec (start_tv s)) sdiv 1000), s))"

text \<open>Lines 321 to 354.  \<^verbatim>\<open>ticks\<close> is a \<^verbatim>\<open>Uint64\<close>: the three statements are word
  arithmetic.\<close>

definition SDL_GetPerformanceCounter_posix ::
    "posix_env \<Rightarrow> posix_state \<Rightarrow> Uint64 \<times> posix_state" where
  "SDL_GetPerformanceCounter_posix e s0 =
     (let s = (if \<not> ticks_started s0 then SDL_TicksInit_posix e s0 else s0)
      in if has_monotonic_time s then
           let now = now_clock_gettime e;
               ticks = word_of_int (tv_sec now);
               ticks1 = ticks * 1000000000;
               ticks2 = ticks1 + word_of_int (tv_nsec now)
           in (ticks2, s)
         else
           let now = now_gettimeofday e;
               ticks = word_of_int (tv_sec' now);
               ticks1 = ticks * 1000000;
               ticks2 = ticks1 + word_of_int (tv_usec now)
           in (ticks2, s))"

text \<open>Lines 356 to 375.\<close>

definition SDL_GetPerformanceFrequency_posix ::
    "posix_env \<Rightarrow> posix_state \<Rightarrow> Uint64 \<times> posix_state" where
  "SDL_GetPerformanceFrequency_posix e s0 =
     (let s = (if \<not> ticks_started s0 then SDL_TicksInit_posix e s0 else s0)
      in if has_monotonic_time s then (1000000000, s) else (1000000, s))"

subsection \<open>POSIX branch: the delay\<close>

text \<open>
  One call of \<^verbatim>\<open>nanosleep(&tv, &elapsed)\<close>: its return value, the value of \<^verbatim>\<open>errno\<close> after
  it (the code sets \<^verbatim>\<open>errno\<close> to 0 before the call), and what it stored in \<^verbatim>\<open>elapsed\<close>, if
  anything.  The operating system is a function from the number of the call within this
  delay and the requested duration to such an answer.
\<close>

record nanosleep_result =
  ns_return :: int
  ns_errno :: int
  ns_rem :: "timespec option"

definition EINTR :: int where
  "EINTR = 4"

definition interrupted :: "nanosleep_result \<Rightarrow> bool" where
  "interrupted r = (ns_return r \<noteq> 0 \<and> ns_errno r = EINTR)"

text \<open>
  The \<^verbatim>\<open>do ... while\<close> of lines 434 to 447.  The loop has no bound of its own, so not
  returning is the value \<open>None\<close>.  The result is the list of the durations requested from
  \<^verbatim>\<open>nanosleep\<close>, in order.
\<close>

partial_function (option) SDL_Delay_loop ::
    "(nat \<Rightarrow> timespec \<Rightarrow> nanosleep_result) \<Rightarrow> nat \<Rightarrow> timespec \<Rightarrow> timespec list
       \<Rightarrow> timespec list option" where
  "SDL_Delay_loop nanosleep k elapsed reqs =
     (let tv = elapsed;
          r = nanosleep k tv;
          elapsed' = (case ns_rem r of Some t \<Rightarrow> t | None \<Rightarrow> elapsed);
          reqs' = reqs @ [tv]
      in if interrupted r
         then SDL_Delay_loop nanosleep (Suc k) elapsed' reqs'
         else Some reqs')"

text \<open>Lines 422 to 450.  \<^verbatim>\<open>ms / 1000\<close> and \<^verbatim>\<open>(ms % 1000) * 1000000\<close> are \<^verbatim>\<open>Uint32\<close>
  arithmetic.  The state is passed through: the body names none of the statics.\<close>

definition delay_request :: "Uint32 \<Rightarrow> timespec" where
  "delay_request ms =
     \<lparr>tv_sec = uint (ms div 1000), tv_nsec = uint ((ms mod 1000) * 1000000)\<rparr>"

definition SDL_Delay_posix ::
    "(nat \<Rightarrow> timespec \<Rightarrow> nanosleep_result) \<Rightarrow> Uint32 \<Rightarrow> posix_state
       \<Rightarrow> (timespec list \<times> posix_state) option" where
  "SDL_Delay_posix nanosleep ms s =
     (case SDL_Delay_loop nanosleep 0 (delay_request ms) [] of
        None \<Rightarrow> None
      | Some reqs \<Rightarrow> Some (reqs, s))"

definition total_ns :: "timespec \<Rightarrow> int" where
  "total_ns t = tv_sec t * 1000000000 + tv_nsec t"

subsection \<open>What is assumed of the operating system\<close>

text \<open>
  \<^verbatim>\<open>SDL_GetPerformanceCounter\<close> and \<^verbatim>\<open>SDL_GetPerformanceFrequency\<close> of the Windows branch
  each ask the operating system anew.  Windows documents that the two queries report the
  presence of the same counter, and that a frequency reported with success is not zero.
\<close>

definition win32_perf_contract :: "win_env \<Rightarrow> bool" where
  "win32_perf_contract e =
     ((perf_QueryPerformanceCounter e = None) = (perf_QueryPerformanceFrequency e = None)
      \<and> perf_QueryPerformanceFrequency e \<noteq> Some 0)"

text \<open>The same environment with both POSIX clocks read one second later.\<close>

definition one_second_later :: "posix_env \<Rightarrow> posix_env" where
  "one_second_later e =
     e\<lparr>now_clock_gettime := (now_clock_gettime e)\<lparr>tv_sec := tv_sec (now_clock_gettime e) + 1\<rparr>,
       now_gettimeofday := (now_gettimeofday e)\<lparr>tv_sec' := tv_sec' (now_gettimeofday e) + 1\<rparr>\<rparr>"

subsection \<open>The millisecond count before it is reduced to 32 bits\<close>

text \<open>
  The value of the expressions of lines 298 and 314 before the conversion to
  \<^verbatim>\<open>Uint32\<close>, in a started state.
\<close>

definition elapsed_ms_timespec :: "timespec \<Rightarrow> timespec \<Rightarrow> int" where
  "elapsed_ms_timespec origin now =
     (tv_sec now - tv_sec origin) * 1000 + (tv_nsec now - tv_nsec origin) sdiv 1000000"

definition elapsed_ms_timeval :: "timeval \<Rightarrow> timeval \<Rightarrow> int" where
  "elapsed_ms_timeval origin now =
     (tv_sec' now - tv_sec' origin) * 1000 + (tv_usec now - tv_usec origin) sdiv 1000"

definition elapsed_ms_posix :: "posix_state \<Rightarrow> posix_env \<Rightarrow> int" where
  "elapsed_ms_posix p e =
     (if has_monotonic_time p then elapsed_ms_timespec (start_ts p) (now_clock_gettime e)
      else elapsed_ms_timeval (start_tv p) (now_gettimeofday e))"

subsection \<open>The delay: what is asked of \<open>nanosleep\<close>\<close>

text \<open>
  An operating system whose interruptions strictly decrease the remaining duration: each
  interrupted call stores a remaining duration that is not negative and is less than the
  duration requested.
\<close>

definition shrinking :: "(nat \<Rightarrow> timespec \<Rightarrow> nanosleep_result) \<Rightarrow> bool" where
  "shrinking nanosleep =
     (\<forall>k tv. interrupted (nanosleep k tv) \<longrightarrow>
        (\<exists>r. ns_rem (nanosleep k tv) = Some r \<and> 0 \<le> total_ns r \<and> total_ns r < total_ns tv))"

text \<open>
  A list of requested durations is a run of the loop from call number \<open>k\<close>: every call
  but the last is interrupted, the request after an interrupted call is what that call
  stored in \<^verbatim>\<open>elapsed\<close> (the old value when it stored nothing), and the last call is not
  interrupted.
\<close>

fun sleep_chain :: "(nat \<Rightarrow> timespec \<Rightarrow> nanosleep_result) \<Rightarrow> nat \<Rightarrow> timespec list \<Rightarrow> bool" where
  "sleep_chain nanosleep k [] = False"
| "sleep_chain nanosleep k [tv] = (\<not> interrupted (nanosleep k tv))"
| "sleep_chain nanosleep k (tv # tv' # rest) =
     (interrupted (nanosleep k tv) \<and>
      tv' = (case ns_rem (nanosleep k tv) of Some r \<Rightarrow> r | None \<Rightarrow> tv) \<and>
      sleep_chain nanosleep (Suc k) (tv' # rest))"

text \<open>
  Two example operating systems: one interrupts the first call when at least a second is
  requested and reports one second less as remaining; the other interrupts every call and
  never stores a remaining duration.
\<close>

definition nanosleep_once_interrupted :: "nat \<Rightarrow> timespec \<Rightarrow> nanosleep_result" where
  "nanosleep_once_interrupted k tv =
     (if k = 0 \<and> 1 \<le> tv_sec tv \<and> 0 \<le> tv_nsec tv
      then \<lparr>ns_return = - 1, ns_errno = EINTR, ns_rem = Some (tv\<lparr>tv_sec := tv_sec tv - 1\<rparr>)\<rparr>
      else \<lparr>ns_return = 0, ns_errno = 0, ns_rem = None\<rparr>)"

definition nanosleep_always_interrupted :: "nat \<Rightarrow> timespec \<Rightarrow> nanosleep_result" where
  "nanosleep_always_interrupted k tv = \<lparr>ns_return = - 1, ns_errno = EINTR, ns_rem = None\<rparr>"

subsection \<open>Initialisation: what is assumed of the operating system\<close>

text \<open>
  Windows documents that a frequency reported with success is not zero and that
  \<^verbatim>\<open>QueryPerformanceCounter\<close> succeeds where \<^verbatim>\<open>QueryPerformanceFrequency\<close> does.
  \<^verbatim>\<open>clock_gettime\<close> fails for a valid pointer only when the clock is not supported on the
  system, so a clock that an earlier initialisation found (\<^verbatim>\<open>has_monotonic_time\<close>) is still
  there at a later one.  \<open>same_reading\<close> says that the clock reads the same in
  \<^verbatim>\<open>SDL_GetTicks\<close> as it did in \<^verbatim>\<open>SDL_TicksInit\<close>.
\<close>

definition win32_init_contract :: "win_env \<Rightarrow> bool" where
  "win32_init_contract e =
     (case init_QueryPerformanceFrequency e of
        None \<Rightarrow> True
      | Some f \<Rightarrow> f \<noteq> 0 \<and> init_QueryPerformanceCounter e \<noteq> None)"

definition same_reading_win :: "win_env \<Rightarrow> bool" where
  "same_reading_win e =
     ((case init_QueryPerformanceCounter e of
         None \<Rightarrow> True
       | Some c \<Rightarrow> ticks_QueryPerformanceCounter e = c)
      \<and> ticks_timeGetTime e = init_timeGetTime e)"

definition clock_still_available :: "posix_state \<Rightarrow> posix_env \<Rightarrow> bool" where
  "clock_still_available p e = (has_monotonic_time p \<longrightarrow> init_clock_gettime e \<noteq> None)"

definition same_reading_posix :: "posix_env \<Rightarrow> bool" where
  "same_reading_posix e =
     ((case init_clock_gettime e of
         None \<Rightarrow> True
       | Some ts \<Rightarrow> now_clock_gettime e = ts)
      \<and> now_gettimeofday e = init_gettimeofday e)"

text \<open>
  The states the POSIX branch can be in on a system whose support for the monotonic clock
  is fixed (\<open>supported\<close>): every \<^verbatim>\<open>clock_gettime\<close> of an initialisation succeeds exactly when
  the clock is supported.
\<close>

definition clock_support :: "bool \<Rightarrow> posix_env \<Rightarrow> bool" where
  "clock_support supported e = ((init_clock_gettime e \<noteq> None) = supported)"

inductive reachable_posix :: "bool \<Rightarrow> posix_state \<Rightarrow> bool" for supported :: bool where
  at_start: "reachable_posix supported posix_initial"
| after_init: "reachable_posix supported p \<Longrightarrow> clock_support supported e \<Longrightarrow>
     reachable_posix supported (SDL_TicksInit_posix e p)"
| after_quit: "reachable_posix supported p \<Longrightarrow>
     reachable_posix supported (SDL_TicksQuit_posix p)"
| after_ticks: "reachable_posix supported p \<Longrightarrow> clock_support supported e \<Longrightarrow>
     reachable_posix supported (snd (SDL_GetTicks_posix e p))"
| after_counter: "reachable_posix supported p \<Longrightarrow> clock_support supported e \<Longrightarrow>
     reachable_posix supported (snd (SDL_GetPerformanceCounter_posix e p))"
| after_frequency: "reachable_posix supported p \<Longrightarrow> clock_support supported e \<Longrightarrow>
     reachable_posix supported (snd (SDL_GetPerformanceFrequency_posix e p))"
| after_delay: "reachable_posix supported p \<Longrightarrow>
     SDL_Delay_posix nanosleep ms p = Some (reqs, p') \<Longrightarrow> reachable_posix supported p'"

subsection \<open>Example environments\<close>

text \<open>
  An operating system without a performance counter and without a monotonic clock, all of
  whose clocks read zero.  The examples below change the fields they need.
\<close>

definition win_env0 :: win_env where
  "win_env0 =
     \<lparr>hint_pushed = None, init_QueryPerformanceFrequency = None,
      init_QueryPerformanceCounter = None, init_timeGetTime = 0,
      ticks_QueryPerformanceCounter = 0, ticks_timeGetTime = 0,
      perf_QueryPerformanceCounter = None, perf_QueryPerformanceFrequency = None\<rparr>"

definition posix_env0 :: posix_env where
  "posix_env0 =
     \<lparr>init_clock_gettime = None, init_gettimeofday = \<lparr>tv_sec' = 0, tv_usec = 0\<rparr>,
      now_clock_gettime = \<lparr>tv_sec = 0, tv_nsec = 0\<rparr>,
      now_gettimeofday = \<lparr>tv_sec' = 0, tv_usec = 0\<rparr>\<rparr>"

section \<open>Properties\<close>

subsection \<open>What the operations leave alone\<close>

lemma SDL_SetSystemTimerResolution_started [simp]:
  "ticks_started_win (SDL_SetSystemTimerResolution p s) = ticks_started_win s"
  by (simp add: SDL_SetSystemTimerResolution_def timeEndPeriod_def timeBeginPeriod_def Let_def)

lemma SDL_TimerResolutionChanged_started [simp]:
  "ticks_started_win (SDL_TimerResolutionChanged old hint s) = ticks_started_win s"
  by (simp add: SDL_TimerResolutionChanged_def Let_def)

lemma SDL_AddHintCallback_started [simp]:
  "ticks_started_win (SDL_AddHintCallback pushed s) = ticks_started_win s"
  by (simp add: SDL_AddHintCallback_def Let_def split: option.splits prod.splits)

lemma SDL_TicksInit_win_started [simp]:
  "ticks_started_win (SDL_TicksInit_win e s)"
  by (simp add: SDL_TicksInit_win_def Let_def split: option.splits)

lemma SDL_TicksInit_posix_started [simp]:
  "ticks_started (SDL_TicksInit_posix e s)"
  by (simp add: SDL_TicksInit_posix_def Let_def split: option.splits)

lemma SDL_GetTicks_win_state:
  "SDL_GetTicks_win e w = Inr (t, w') \<Longrightarrow>
     w' = (if ticks_started_win w then w else SDL_TicksInit_win e w)"
  by (auto simp: SDL_GetTicks_win_def Let_def split: if_splits)

lemma SDL_SetSystemTimerResolution_fields [simp]:
  "start (SDL_SetSystemTimerResolution p s) = start s"
  "hires_timer_available (SDL_SetSystemTimerResolution p s) = hires_timer_available s"
  "hires_start_ticks (SDL_SetSystemTimerResolution p s) = hires_start_ticks s"
  "hires_ticks_per_second (SDL_SetSystemTimerResolution p s) = hires_ticks_per_second s"
  "hint_callback_registered (SDL_SetSystemTimerResolution p s) = hint_callback_registered s"
  "timer_period (SDL_SetSystemTimerResolution p s) = p"
  by (simp_all add: SDL_SetSystemTimerResolution_def timeEndPeriod_def timeBeginPeriod_def Let_def)

lemma SDL_TimerResolutionChanged_fields [simp]:
  "start (SDL_TimerResolutionChanged old hint s) = start s"
  "hires_timer_available (SDL_TimerResolutionChanged old hint s) = hires_timer_available s"
  "hires_start_ticks (SDL_TimerResolutionChanged old hint s) = hires_start_ticks s"
  "hires_ticks_per_second (SDL_TimerResolutionChanged old hint s) = hires_ticks_per_second s"
  "hint_callback_registered (SDL_TimerResolutionChanged old hint s) = hint_callback_registered s"
  by (simp_all add: SDL_TimerResolutionChanged_def Let_def)

lemma SDL_AddHintCallback_fields [simp]:
  "start (SDL_AddHintCallback pushed s) = start s"
  "hires_timer_available (SDL_AddHintCallback pushed s) = hires_timer_available s"
  "hires_start_ticks (SDL_AddHintCallback pushed s) = hires_start_ticks s"
  "hires_ticks_per_second (SDL_AddHintCallback pushed s) = hires_ticks_per_second s"
  "hint_callback_registered (SDL_AddHintCallback pushed s)"
  by (simp_all add: SDL_AddHintCallback_def Let_def split: option.splits prod.splits)

lemma SDL_TicksQuit_win_eq:
  "SDL_TicksQuit_win w =
     w\<lparr>hint_callback_registered := False, timer_period := 0,
       os_calls := os_calls w
         @ (if timer_period w \<noteq> 0 then [TimeEndPeriod (timer_period w)] else []),
       start := 0, ticks_started_win := False\<rparr>"
  by (simp add: SDL_TicksQuit_win_def SDL_DelHintCallback_def SDL_SetSystemTimerResolution_def
        timeEndPeriod_def Let_def)

lemma SDL_TicksInit_win_origin:
  assumes "\<not> ticks_started_win w"
  shows "(case init_QueryPerformanceFrequency e of
            Some f \<Rightarrow>
              hires_timer_available (SDL_TicksInit_win e w) \<and>
              hires_ticks_per_second (SDL_TicksInit_win e w) = f \<and>
              (\<forall>c. init_QueryPerformanceCounter e = Some c \<longrightarrow>
                 hires_start_ticks (SDL_TicksInit_win e w) = c)
          | None \<Rightarrow>
              \<not> hires_timer_available (SDL_TicksInit_win e w) \<and>
              start (SDL_TicksInit_win e w) = init_timeGetTime e)"
  using assms by (simp add: SDL_TicksInit_win_def Let_def split: option.splits)

lemma SDL_GetTicks_win_after_init:
  assumes "\<not> ticks_started_win w" "win32_init_contract e" "same_reading_win e"
  shows "SDL_GetTicks_win e (SDL_TicksInit_win e w) = Inr (0, SDL_TicksInit_win e w)"
proof (cases "init_QueryPerformanceFrequency e")
  case None
  with assms SDL_TicksInit_win_origin [OF assms(1), of e] show ?thesis
    by (simp add: SDL_GetTicks_win_def same_reading_win_def Let_def)
next
  case (Some f)
  with assms(2) obtain c where c: "init_QueryPerformanceCounter e = Some c" and f: "f \<noteq> 0"
    by (auto simp: win32_init_contract_def)
  with assms(3) have now: "ticks_QueryPerformanceCounter e = c"
    by (simp add: same_reading_win_def)
  from Some c SDL_TicksInit_win_origin [OF assms(1), of e]
  have "hires_timer_available (SDL_TicksInit_win e w)"
      "hires_ticks_per_second (SDL_TicksInit_win e w) = f"
      "hires_start_ticks (SDL_TicksInit_win e w) = c"
    by simp_all
  with f now show ?thesis
    by (simp add: SDL_GetTicks_win_def Let_def divide_traps_def sdiv64_def)
qed

lemma SDL_GetTicks_posix_after_init:
  assumes "\<not> ticks_started p" "clock_still_available p e" "same_reading_posix e"
  shows "SDL_GetTicks_posix e (SDL_TicksInit_posix e p) = (0, SDL_TicksInit_posix e p)"
  using assms
  by (auto simp: SDL_GetTicks_posix_def SDL_TicksInit_posix_def clock_still_available_def
        same_reading_posix_def Let_def split: option.splits)

subsection \<open>Initialisation\<close>

text \<open>
  Claim C1.  \<^verbatim>\<open>SDL_TicksInit\<close> is idempotent on both branches: in a state in which
  initialisation has run (\<^verbatim>\<open>ticks_started\<close> is true) a call returns the state as it is,
  whatever the operating system would answer, so the origin (\<^verbatim>\<open>start\<close>,
  \<^verbatim>\<open>hires_start_ticks\<close>, \<^verbatim>\<open>start_ts\<close>, \<^verbatim>\<open>start_tv\<close>), the backend flag
  (\<^verbatim>\<open>hires_timer_available\<close>, \<^verbatim>\<open>has_monotonic_time\<close>) and the frequency are unchanged; and
  calling it twice in a row, from any state, gives the state that calling it once gives.
\<close>

theorem SDL_TicksInit_idempotent:
  "(ticks_started_win w \<longrightarrow> SDL_TicksInit_win we w = w) \<and>
   SDL_TicksInit_win we' (SDL_TicksInit_win we w) = SDL_TicksInit_win we w \<and>
   (ticks_started p \<longrightarrow> SDL_TicksInit_posix pe p = p) \<and>
   SDL_TicksInit_posix pe' (SDL_TicksInit_posix pe p) = SDL_TicksInit_posix pe p"
proof -
  have started_win: "ticks_started_win s \<Longrightarrow> SDL_TicksInit_win e s = s" for e s
    by (simp add: SDL_TicksInit_win_def)
  have started_posix: "ticks_started s \<Longrightarrow> SDL_TicksInit_posix e s = s" for e s
    by (simp add: SDL_TicksInit_posix_def)
  show ?thesis
    using started_win started_posix by simp
qed

theorem SDL_TicksInit_idempotent_witness:
  "SDL_TicksInit_win
     (win_env0\<lparr>init_QueryPerformanceFrequency := Some 10000000,
               init_QueryPerformanceCounter := Some 999\<rparr>)
     (win_initial\<lparr>ticks_started_win := True, hires_timer_available := True,
                  hires_ticks_per_second := 10000000, hires_start_ticks := 123\<rparr>)
     = win_initial\<lparr>ticks_started_win := True, hires_timer_available := True,
                  hires_ticks_per_second := 10000000, hires_start_ticks := 123\<rparr> \<and>
   SDL_TicksInit_win (win_env0\<lparr>init_timeGetTime := 777\<rparr>)
     (SDL_TicksInit_win (win_env0\<lparr>init_timeGetTime := 500\<rparr>) win_initial)
     = win_initial\<lparr>ticks_started_win := True, hint_callback_registered := True,
                    start := 500\<rparr> \<and>
   SDL_TicksInit_posix
     (posix_env0\<lparr>init_clock_gettime := Some \<lparr>tv_sec = 99, tv_nsec = 5\<rparr>\<rparr>)
     (posix_initial\<lparr>ticks_started := True, has_monotonic_time := True,
                    start_ts := \<lparr>tv_sec = 10, tv_nsec = 20\<rparr>\<rparr>)
     = posix_initial\<lparr>ticks_started := True, has_monotonic_time := True,
                    start_ts := \<lparr>tv_sec = 10, tv_nsec = 20\<rparr>\<rparr> \<and>
   SDL_TicksInit_posix
     (posix_env0\<lparr>init_clock_gettime := Some \<lparr>tv_sec = 99, tv_nsec = 5\<rparr>\<rparr>)
     (SDL_TicksInit_posix
        (posix_env0\<lparr>init_clock_gettime := Some \<lparr>tv_sec = 10, tv_nsec = 20\<rparr>\<rparr>)
        posix_initial)
     = posix_initial\<lparr>ticks_started := True, has_monotonic_time := True,
                    start_ts := \<lparr>tv_sec = 10, tv_nsec = 20\<rparr>\<rparr>"
proof -
  let ?w = "win_initial\<lparr>ticks_started_win := True, hires_timer_available := True,
                  hires_ticks_per_second := 10000000, hires_start_ticks := 123\<rparr>"
  let ?p = "posix_initial\<lparr>ticks_started := True, has_monotonic_time := True,
                    start_ts := \<lparr>tv_sec = 10, tv_nsec = 20\<rparr>\<rparr>"
  have w: "ticks_started_win ?w" and p: "ticks_started ?p"
    by simp_all
  have once_win: "SDL_TicksInit_win (win_env0\<lparr>init_timeGetTime := 500\<rparr>) win_initial
      = win_initial\<lparr>ticks_started_win := True, hint_callback_registered := True,
                    start := 500\<rparr>"
    by (simp add: SDL_TicksInit_win_def SDL_AddHintCallback_def win_env0_def win_initial_def)
  have once_posix: "SDL_TicksInit_posix
        (posix_env0\<lparr>init_clock_gettime := Some \<lparr>tv_sec = 10, tv_nsec = 20\<rparr>\<rparr>)
        posix_initial = ?p"
    by (simp add: SDL_TicksInit_posix_def posix_env0_def posix_initial_def)
  show ?thesis
    using SDL_TicksInit_idempotent
            [of ?w "win_env0\<lparr>init_QueryPerformanceFrequency := Some 10000000,
                              init_QueryPerformanceCounter := Some 999\<rparr>"
                _ ?p "posix_env0\<lparr>init_clock_gettime := Some \<lparr>tv_sec = 99, tv_nsec = 5\<rparr>\<rparr>"]
          SDL_TicksInit_idempotent
            [of win_initial "win_env0\<lparr>init_timeGetTime := 500\<rparr>"
                "win_env0\<lparr>init_timeGetTime := 777\<rparr>" posix_initial
                "posix_env0\<lparr>init_clock_gettime := Some \<lparr>tv_sec = 10, tv_nsec = 20\<rparr>\<rparr>"
                "posix_env0\<lparr>init_clock_gettime := Some \<lparr>tv_sec = 99, tv_nsec = 5\<rparr>\<rparr>"]
          w p once_win once_posix
    by simp
qed

subsection \<open>\<open>has_monotonic_time\<close> is set only where the clock is supported\<close>

lemma SDL_TicksInit_posix_has_monotonic_time:
  "has_monotonic_time (SDL_TicksInit_posix e p)
     = (has_monotonic_time p \<or> (\<not> ticks_started p \<and> init_clock_gettime e \<noteq> None))"
  by (auto simp: SDL_TicksInit_posix_def Let_def split: option.splits)

lemma reachable_posix_has_monotonic_time:
  "reachable_posix supported p \<Longrightarrow> has_monotonic_time p \<Longrightarrow> supported"
proof (induction rule: reachable_posix.induct)
  case at_start
  then show ?case by (simp add: posix_initial_def)
next
  case (after_init p e)
  then show ?case
    by (auto simp: SDL_TicksInit_posix_has_monotonic_time clock_support_def)
next
  case (after_quit p)
  then show ?case by (simp add: SDL_TicksQuit_posix_def)
next
  case (after_ticks p e)
  then show ?case
    by (auto simp: SDL_GetTicks_posix_def Let_def SDL_TicksInit_posix_has_monotonic_time
          clock_support_def split: if_splits)
next
  case (after_counter p e)
  then show ?case
    by (auto simp: SDL_GetPerformanceCounter_posix_def Let_def
          SDL_TicksInit_posix_has_monotonic_time clock_support_def split: if_splits)
next
  case (after_frequency p e)
  then show ?case
    by (auto simp: SDL_GetPerformanceFrequency_posix_def Let_def
          SDL_TicksInit_posix_has_monotonic_time clock_support_def split: if_splits)
next
  case (after_delay p nanosleep ms reqs p')
  then show ?case
    by (auto simp: SDL_Delay_posix_def split: option.splits)
qed

lemma reachable_posix_clock_still_available:
  "reachable_posix supported p \<Longrightarrow> clock_support supported e \<Longrightarrow> clock_still_available p e"
  using reachable_posix_has_monotonic_time [of supported p]
  by (auto simp: clock_still_available_def clock_support_def)

subsection \<open>Teardown and re-initialisation\<close>

text \<open>
  Claim C9.  On the Windows branch \<^verbatim>\<open>SDL_TicksQuit\<close> unregisters the resolution-hint
  callback, requests timer period 0 (which releases a nonzero period with
  \<^verbatim>\<open>timeEndPeriod\<close>), and resets \<^verbatim>\<open>start\<close> and \<^verbatim>\<open>ticks_started\<close>; on the POSIX branch, which
  has neither a timer period nor a callback, it resets \<^verbatim>\<open>ticks_started\<close>.  A following
  \<^verbatim>\<open>SDL_TicksInit\<close> captures the origin anew from what the operating system answers at
  that call.  With the operating system as assumed above, and so in every state the POSIX
  branch reaches on a system whose support for the monotonic clock is fixed,
  \<^verbatim>\<open>SDL_GetTicks\<close> evaluated at the clock reading of the re-initialisation returns 0.
\<close>

theorem SDL_TicksQuit_then_reinit:
  "SDL_TicksQuit_win w =
     w\<lparr>hint_callback_registered := False, timer_period := 0,
       os_calls := os_calls w
         @ (if timer_period w \<noteq> 0 then [TimeEndPeriod (timer_period w)] else []),
       start := 0, ticks_started_win := False\<rparr> \<and>
   SDL_TicksQuit_win w
     = (SDL_SetSystemTimerResolution 0 (SDL_DelHintCallback w))
         \<lparr>start := 0, ticks_started_win := False\<rparr> \<and>
   (case init_QueryPerformanceFrequency we of
      Some f \<Rightarrow>
        hires_timer_available (SDL_TicksInit_win we (SDL_TicksQuit_win w)) \<and>
        hires_ticks_per_second (SDL_TicksInit_win we (SDL_TicksQuit_win w)) = f \<and>
        (\<forall>c. init_QueryPerformanceCounter we = Some c \<longrightarrow>
           hires_start_ticks (SDL_TicksInit_win we (SDL_TicksQuit_win w)) = c)
    | None \<Rightarrow>
        \<not> hires_timer_available (SDL_TicksInit_win we (SDL_TicksQuit_win w)) \<and>
        start (SDL_TicksInit_win we (SDL_TicksQuit_win w)) = init_timeGetTime we) \<and>
   (win32_init_contract we \<and> same_reading_win we \<longrightarrow>
      SDL_GetTicks_win we (SDL_TicksInit_win we (SDL_TicksQuit_win w))
        = Inr (0, SDL_TicksInit_win we (SDL_TicksQuit_win w))) \<and>
   SDL_TicksQuit_posix p = p\<lparr>ticks_started := False\<rparr> \<and>
   (case init_clock_gettime pe of
      Some ts \<Rightarrow>
        has_monotonic_time (SDL_TicksInit_posix pe (SDL_TicksQuit_posix p)) \<and>
        start_ts (SDL_TicksInit_posix pe (SDL_TicksQuit_posix p)) = ts
    | None \<Rightarrow>
        start_tv (SDL_TicksInit_posix pe (SDL_TicksQuit_posix p)) = init_gettimeofday pe) \<and>
   (clock_still_available p pe \<and> same_reading_posix pe \<longrightarrow>
      SDL_GetTicks_posix pe (SDL_TicksInit_posix pe (SDL_TicksQuit_posix p))
        = (0, SDL_TicksInit_posix pe (SDL_TicksQuit_posix p))) \<and>
   (reachable_posix supported p \<and> clock_support supported pe \<and> same_reading_posix pe \<longrightarrow>
      SDL_GetTicks_posix pe (SDL_TicksInit_posix pe (SDL_TicksQuit_posix p))
        = (0, SDL_TicksInit_posix pe (SDL_TicksQuit_posix p)))"
proof -
  have quit_win: "\<not> ticks_started_win (SDL_TicksQuit_win w)"
    by (simp add: SDL_TicksQuit_win_def Let_def)
  have quit_posix: "\<not> ticks_started (SDL_TicksQuit_posix p)"
    "has_monotonic_time (SDL_TicksQuit_posix p) = has_monotonic_time p"
    by (simp_all add: SDL_TicksQuit_posix_def)
  have request: "SDL_TicksQuit_win w
     = (SDL_SetSystemTimerResolution 0 (SDL_DelHintCallback w))
         \<lparr>start := 0, ticks_started_win := False\<rparr>"
    by (simp add: SDL_TicksQuit_win_def Let_def)
  have ticks_win: "SDL_GetTicks_win we (SDL_TicksInit_win we (SDL_TicksQuit_win w))
        = Inr (0, SDL_TicksInit_win we (SDL_TicksQuit_win w))"
    if "win32_init_contract we" "same_reading_win we"
    using quit_win that by (rule SDL_GetTicks_win_after_init)
  have origin_posix: "(case init_clock_gettime pe of
      Some ts \<Rightarrow>
        has_monotonic_time (SDL_TicksInit_posix pe (SDL_TicksQuit_posix p)) \<and>
        start_ts (SDL_TicksInit_posix pe (SDL_TicksQuit_posix p)) = ts
    | None \<Rightarrow>
        start_tv (SDL_TicksInit_posix pe (SDL_TicksQuit_posix p)) = init_gettimeofday pe)"
    by (simp add: SDL_TicksInit_posix_def SDL_TicksQuit_posix_def split: option.splits)
  have ticks_posix: "SDL_GetTicks_posix pe (SDL_TicksInit_posix pe (SDL_TicksQuit_posix p))
        = (0, SDL_TicksInit_posix pe (SDL_TicksQuit_posix p))"
    if "clock_still_available p pe" "same_reading_posix pe"
  proof -
    from that(1) have "clock_still_available (SDL_TicksQuit_posix p) pe"
      by (simp add: clock_still_available_def quit_posix)
    with quit_posix(1) show ?thesis using that(2) by (rule SDL_GetTicks_posix_after_init)
  qed
  have ticks_reachable:
    "SDL_GetTicks_posix pe (SDL_TicksInit_posix pe (SDL_TicksQuit_posix p))
        = (0, SDL_TicksInit_posix pe (SDL_TicksQuit_posix p))"
    if "reachable_posix supported p" "clock_support supported pe" "same_reading_posix pe"
    using reachable_posix_clock_still_available [OF that(1,2)] that(3) by (rule ticks_posix)
  show ?thesis
    using SDL_TicksQuit_win_eq [of w] request SDL_TicksInit_win_origin [OF quit_win, of we]
      ticks_win origin_posix ticks_posix ticks_reachable
    by (simp add: SDL_TicksQuit_posix_def)
qed

theorem SDL_TicksQuit_then_reinit_witness:
  "win32_init_contract
     (win_env0\<lparr>init_QueryPerformanceFrequency := Some 10000000,
               init_QueryPerformanceCounter := Some 5000,
               ticks_QueryPerformanceCounter := 5000\<rparr>) \<and>
   same_reading_win
     (win_env0\<lparr>init_QueryPerformanceFrequency := Some 10000000,
               init_QueryPerformanceCounter := Some 5000,
               ticks_QueryPerformanceCounter := 5000\<rparr>) \<and>
   SDL_TicksQuit_win
     (win_initial\<lparr>ticks_started_win := True, start := 77, timer_period := 1,
                  hint_callback_registered := True, os_calls := [TimeBeginPeriod 1]\<rparr>)
     = win_initial\<lparr>os_calls := [TimeBeginPeriod 1, TimeEndPeriod 1]\<rparr> \<and>
   SDL_GetTicks_win
     (win_env0\<lparr>init_QueryPerformanceFrequency := Some 10000000,
               init_QueryPerformanceCounter := Some 5000,
               ticks_QueryPerformanceCounter := 5000\<rparr>)
     (SDL_TicksInit_win
        (win_env0\<lparr>init_QueryPerformanceFrequency := Some 10000000,
                  init_QueryPerformanceCounter := Some 5000,
                  ticks_QueryPerformanceCounter := 5000\<rparr>)
        (SDL_TicksQuit_win
           (win_initial\<lparr>ticks_started_win := True, start := 77, timer_period := 1,
                        hint_callback_registered := True, os_calls := [TimeBeginPeriod 1]\<rparr>)))
     = Inr (0, win_initial\<lparr>ticks_started_win := True, hint_callback_registered := True,
                           hires_timer_available := True, hires_ticks_per_second := 10000000,
                           hires_start_ticks := 5000,
                           os_calls := [TimeBeginPeriod 1, TimeEndPeriod 1]\<rparr>) \<and>
   clock_still_available
     (posix_initial\<lparr>ticks_started := True, has_monotonic_time := True,
                    start_ts := \<lparr>tv_sec = 10, tv_nsec = 20\<rparr>\<rparr>)
     (posix_env0\<lparr>init_clock_gettime := Some \<lparr>tv_sec = 50, tv_nsec = 7\<rparr>,
                 now_clock_gettime := \<lparr>tv_sec = 50, tv_nsec = 7\<rparr>\<rparr>) \<and>
   same_reading_posix
     (posix_env0\<lparr>init_clock_gettime := Some \<lparr>tv_sec = 50, tv_nsec = 7\<rparr>,
                 now_clock_gettime := \<lparr>tv_sec = 50, tv_nsec = 7\<rparr>\<rparr>) \<and>
   reachable_posix True
     (posix_initial\<lparr>ticks_started := True, has_monotonic_time := True,
                    start_ts := \<lparr>tv_sec = 10, tv_nsec = 20\<rparr>\<rparr>) \<and>
   clock_support True
     (posix_env0\<lparr>init_clock_gettime := Some \<lparr>tv_sec = 50, tv_nsec = 7\<rparr>,
                 now_clock_gettime := \<lparr>tv_sec = 50, tv_nsec = 7\<rparr>\<rparr>) \<and>
   SDL_GetTicks_posix
     (posix_env0\<lparr>init_clock_gettime := Some \<lparr>tv_sec = 50, tv_nsec = 7\<rparr>,
                 now_clock_gettime := \<lparr>tv_sec = 50, tv_nsec = 7\<rparr>\<rparr>)
     (SDL_TicksInit_posix
        (posix_env0\<lparr>init_clock_gettime := Some \<lparr>tv_sec = 50, tv_nsec = 7\<rparr>,
                    now_clock_gettime := \<lparr>tv_sec = 50, tv_nsec = 7\<rparr>\<rparr>)
        (SDL_TicksQuit_posix
           (posix_initial\<lparr>ticks_started := True, has_monotonic_time := True,
                          start_ts := \<lparr>tv_sec = 10, tv_nsec = 20\<rparr>\<rparr>)))
     = (0, posix_initial\<lparr>ticks_started := True, has_monotonic_time := True,
                          start_ts := \<lparr>tv_sec = 50, tv_nsec = 7\<rparr>\<rparr>)"
proof -
  let ?we = "win_env0\<lparr>init_QueryPerformanceFrequency := Some 10000000,
               init_QueryPerformanceCounter := Some 5000,
               ticks_QueryPerformanceCounter := 5000\<rparr>"
  let ?w = "win_initial\<lparr>ticks_started_win := True, start := 77, timer_period := 1,
                  hint_callback_registered := True, os_calls := [TimeBeginPeriod 1]\<rparr>"
  let ?pe = "posix_env0\<lparr>init_clock_gettime := Some \<lparr>tv_sec = 50, tv_nsec = 7\<rparr>,
                 now_clock_gettime := \<lparr>tv_sec = 50, tv_nsec = 7\<rparr>\<rparr>"
  let ?p = "posix_initial\<lparr>ticks_started := True, has_monotonic_time := True,
                    start_ts := \<lparr>tv_sec = 10, tv_nsec = 20\<rparr>\<rparr>"
  have contract: "win32_init_contract ?we" and reading: "same_reading_win ?we"
    by (simp_all add: win32_init_contract_def same_reading_win_def win_env0_def)
  have available: "clock_still_available ?p ?pe" and preading: "same_reading_posix ?pe"
    by (simp_all add: clock_still_available_def same_reading_posix_def posix_env0_def)
  have support: "clock_support True ?pe"
    by (simp add: clock_support_def)
  have "reachable_posix True
      (SDL_TicksInit_posix
         (posix_env0\<lparr>init_clock_gettime := Some \<lparr>tv_sec = 10, tv_nsec = 20\<rparr>\<rparr>) posix_initial)"
    by (intro after_init at_start) (simp add: clock_support_def)
  then have reachable: "reachable_posix True ?p"
    by (simp add: SDL_TicksInit_posix_def posix_initial_def)
  note T = SDL_TicksQuit_then_reinit [of ?w ?we ?p ?pe True]
  have quit_win: "SDL_TicksQuit_win ?w
      = win_initial\<lparr>os_calls := [TimeBeginPeriod 1, TimeEndPeriod 1]\<rparr>"
    by (subst T [THEN conjunct1]) (simp add: win_initial_def)
  have init_win: "SDL_TicksInit_win ?we (win_initial\<lparr>os_calls := [TimeBeginPeriod 1, TimeEndPeriod 1]\<rparr>)
      = win_initial\<lparr>ticks_started_win := True, hint_callback_registered := True,
                           hires_timer_available := True, hires_ticks_per_second := 10000000,
                           hires_start_ticks := 5000,
                           os_calls := [TimeBeginPeriod 1, TimeEndPeriod 1]\<rparr>"
    by (simp add: SDL_TicksInit_win_def SDL_AddHintCallback_def win_env0_def win_initial_def)
  have ticks_win: "SDL_GetTicks_win ?we (SDL_TicksInit_win ?we (SDL_TicksQuit_win ?w))
      = Inr (0, SDL_TicksInit_win ?we (SDL_TicksQuit_win ?w))"
    using T contract reading by blast
  have quit_posix: "SDL_TicksQuit_posix ?p = ?p\<lparr>ticks_started := False\<rparr>"
    using T by blast
  have init_posix: "SDL_TicksInit_posix ?pe (?p\<lparr>ticks_started := False\<rparr>)
      = posix_initial\<lparr>ticks_started := True, has_monotonic_time := True,
                          start_ts := \<lparr>tv_sec = 50, tv_nsec = 7\<rparr>\<rparr>"
    by (simp add: SDL_TicksInit_posix_def posix_env0_def posix_initial_def)
  have ticks_posix: "SDL_GetTicks_posix ?pe (SDL_TicksInit_posix ?pe (SDL_TicksQuit_posix ?p))
      = (0, SDL_TicksInit_posix ?pe (SDL_TicksQuit_posix ?p))"
    using T reachable support preading by blast
  from ticks_win have ticks_win': "SDL_GetTicks_win ?we (SDL_TicksInit_win ?we (SDL_TicksQuit_win ?w))
      = Inr (0, win_initial\<lparr>ticks_started_win := True, hint_callback_registered := True,
                           hires_timer_available := True, hires_ticks_per_second := 10000000,
                           hires_start_ticks := 5000,
                           os_calls := [TimeBeginPeriod 1, TimeEndPeriod 1]\<rparr>)"
    by (simp only: quit_win init_win)
  from ticks_posix have ticks_posix': "SDL_GetTicks_posix ?pe (SDL_TicksInit_posix ?pe (SDL_TicksQuit_posix ?p))
      = (0, posix_initial\<lparr>ticks_started := True, has_monotonic_time := True,
                          start_ts := \<lparr>tv_sec = 50, tv_nsec = 7\<rparr>\<rparr>)"
    by (simp only: quit_posix init_posix)
  show ?thesis
    using contract reading available preading reachable support quit_win ticks_win' ticks_posix'
    by blast
qed

text \<open>
  Why the POSIX half asks that the clock remain available: \<^verbatim>\<open>SDL_TicksInit\<close> sets
  \<^verbatim>\<open>has_monotonic_time\<close> and never clears it.  Were \<^verbatim>\<open>clock_gettime\<close> to fail at a
  re-initialisation after it had succeeded at an earlier one, \<^verbatim>\<open>SDL_GetTicks\<close> would
  measure from the earlier \<^verbatim>\<open>start_ts\<close>.
\<close>

lemma SDL_TicksInit_posix_keeps_has_monotonic_time:
  "SDL_GetTicks_posix
     (posix_env0\<lparr>init_gettimeofday := \<lparr>tv_sec' = 2000, tv_usec = 0\<rparr>,
                 now_gettimeofday := \<lparr>tv_sec' = 2000, tv_usec = 0\<rparr>,
                 now_clock_gettime := \<lparr>tv_sec = 50, tv_nsec = 0\<rparr>\<rparr>)
     (SDL_TicksInit_posix
        (posix_env0\<lparr>init_gettimeofday := \<lparr>tv_sec' = 2000, tv_usec = 0\<rparr>,
                    now_gettimeofday := \<lparr>tv_sec' = 2000, tv_usec = 0\<rparr>,
                    now_clock_gettime := \<lparr>tv_sec = 50, tv_nsec = 0\<rparr>\<rparr>)
        (SDL_TicksQuit_posix
           (posix_initial\<lparr>ticks_started := True, has_monotonic_time := True,
                          start_ts := \<lparr>tv_sec = 10, tv_nsec = 0\<rparr>\<rparr>)))
     = (40000, posix_initial\<lparr>ticks_started := True, has_monotonic_time := True,
                 start_ts := \<lparr>tv_sec = 10, tv_nsec = 0\<rparr>,
                 start_tv := \<lparr>tv_sec' = 2000, tv_usec = 0\<rparr>\<rparr>)"
  by (simp add: SDL_GetTicks_posix_def SDL_TicksInit_posix_def SDL_TicksQuit_posix_def
        posix_env0_def posix_initial_def signed_divide_int_def)

subsection \<open>The timer resolution request\<close>

text \<open>
  Claim C5.  \<^verbatim>\<open>SDL_SetSystemTimerResolution\<close> called with the period it has recorded
  (zero or not) changes nothing and makes no call to the operating system.  Called with a
  different period it records the new period and appends to the log of operating-system
  calls, in this order, \<^verbatim>\<open>timeEndPeriod\<close> of the old period if the old period was nonzero,
  then \<^verbatim>\<open>timeBeginPeriod\<close> of the new period if the new period is nonzero; the release
  never comes after the install.  Nothing else of the state changes.
\<close>

theorem SDL_SetSystemTimerResolution_release_then_install:
  "(uPeriod = timer_period s \<longrightarrow> SDL_SetSystemTimerResolution uPeriod s = s) \<and>
   (uPeriod \<noteq> timer_period s \<longrightarrow>
      SDL_SetSystemTimerResolution uPeriod s =
        s\<lparr>timer_period := uPeriod,
          os_calls := os_calls s
            @ (if timer_period s \<noteq> 0 then [TimeEndPeriod (timer_period s)] else [])
            @ (if uPeriod \<noteq> 0 then [TimeBeginPeriod uPeriod] else [])\<rparr>)"
  by (simp add: SDL_SetSystemTimerResolution_def timeEndPeriod_def timeBeginPeriod_def Let_def)

theorem SDL_SetSystemTimerResolution_release_then_install_witness:
  "SDL_SetSystemTimerResolution 5 (win_initial\<lparr>timer_period := 5\<rparr>)
     = win_initial\<lparr>timer_period := 5\<rparr> \<and>
   SDL_SetSystemTimerResolution 1 (win_initial\<lparr>timer_period := 5\<rparr>)
     = win_initial\<lparr>timer_period := 1, os_calls := [TimeEndPeriod 5, TimeBeginPeriod 1]\<rparr> \<and>
   SDL_SetSystemTimerResolution 0 (win_initial\<lparr>timer_period := 5\<rparr>)
     = win_initial\<lparr>timer_period := 0, os_calls := [TimeEndPeriod 5]\<rparr> \<and>
   SDL_SetSystemTimerResolution 3 win_initial
     = win_initial\<lparr>timer_period := 3, os_calls := [TimeBeginPeriod 3]\<rparr>"
  using SDL_SetSystemTimerResolution_release_then_install
          [of 5 "win_initial\<lparr>timer_period := 5\<rparr>"]
        SDL_SetSystemTimerResolution_release_then_install
          [of 1 "win_initial\<lparr>timer_period := 5\<rparr>"]
        SDL_SetSystemTimerResolution_release_then_install
          [of 0 "win_initial\<lparr>timer_period := 5\<rparr>"]
        SDL_SetSystemTimerResolution_release_then_install [of 3 win_initial]
  by (simp add: win_initial_def)

text \<open>
  The claim that every invocation of \<^verbatim>\<open>SDL_TimerResolutionChanged\<close> requests the parsed
  period, the period 0 included, fails: invoked with the hint \<^verbatim>\<open>"abc"\<close> and an
  \<^verbatim>\<open>oldValue\<close> that is the same pointer, while period 1 is installed, it makes no request
  and the state keeps period 1, whereas a request of period 0 would release it with
  \<^verbatim>\<open>timeEndPeriod\<close>.
\<close>

theorem SDL_TimerResolutionChanged_counterexample:
  "hint_period (Ptr 16 ''abc'') = 0 \<and>
   SDL_TimerResolutionChanged (Ptr 16 ''abc'') (Ptr 16 ''abc'')
       (win_initial\<lparr>timer_period := 1, os_calls := [TimeBeginPeriod 1]\<rparr>)
     = win_initial\<lparr>timer_period := 1, os_calls := [TimeBeginPeriod 1]\<rparr> \<and>
   SDL_SetSystemTimerResolution 0
       (win_initial\<lparr>timer_period := 1, os_calls := [TimeBeginPeriod 1]\<rparr>)
     = win_initial\<lparr>timer_period := 0, os_calls := [TimeBeginPeriod 1, TimeEndPeriod 1]\<rparr> \<and>
   win_initial\<lparr>timer_period := 0, os_calls := [TimeBeginPeriod 1, TimeEndPeriod 1]\<rparr>
     \<noteq> win_initial\<lparr>timer_period := 1, os_calls := [TimeBeginPeriod 1]\<rparr>"
  by (simp add: SDL_TimerResolutionChanged_def hint_period_def SDL_atoi_def is_digit_def
        is_space_def SDL_SetSystemTimerResolution_def timeEndPeriod_def win_initial_def)

text \<open>
  Claim C4, as amended.  \<^verbatim>\<open>SDL_TimerResolutionChanged\<close> computes the period 1 for an absent
  or empty hint and otherwise the integer parsed from the hint (\<^verbatim>\<open>"5"\<close> gives 5, malformed
  text such as \<^verbatim>\<open>"abc"\<close> gives 0).  It passes that period to
  \<^verbatim>\<open>SDL_SetSystemTimerResolution\<close> when the period is not 0 or \<^verbatim>\<open>oldValue\<close> and \<^verbatim>\<open>hint\<close> are
  different pointers; when the period is 0 and the two pointers are the same (line 74) it
  makes no request and leaves the state as it is.
\<close>

theorem SDL_TimerResolutionChanged_request:
  "hint_period NULL = 1 \<and>
   hint_period (Ptr a []) = 1 \<and>
   (cs \<noteq> [] \<longrightarrow> hint_period (Ptr a cs) = word_of_int (SDL_atoi cs)) \<and>
   hint_period (Ptr a ''5'') = 5 \<and>
   hint_period (Ptr a ''abc'') = 0 \<and>
   (hint_period hint \<noteq> 0 \<or> \<not> same_pointer oldValue hint \<longrightarrow>
      SDL_TimerResolutionChanged oldValue hint s
        = SDL_SetSystemTimerResolution (hint_period hint) s) \<and>
   (hint_period hint = 0 \<and> same_pointer oldValue hint \<longrightarrow>
      SDL_TimerResolutionChanged oldValue hint s = s)"
  by (simp add: SDL_TimerResolutionChanged_def hint_period_def SDL_atoi_def is_digit_def
        is_space_def Let_def)

theorem SDL_TimerResolutionChanged_request_witness:
  "hint_period (Ptr 16 ''10'') = 10 \<and>
   SDL_TimerResolutionChanged NULL (Ptr 16 ''5'') (win_initial\<lparr>timer_period := 1\<rparr>)
     = win_initial\<lparr>timer_period := 5, os_calls := [TimeEndPeriod 1, TimeBeginPeriod 5]\<rparr> \<and>
   SDL_TimerResolutionChanged NULL NULL win_initial
     = win_initial\<lparr>timer_period := 1, os_calls := [TimeBeginPeriod 1]\<rparr> \<and>
   SDL_TimerResolutionChanged (Ptr 16 ''5'') (Ptr 32 ''abc'') (win_initial\<lparr>timer_period := 5\<rparr>)
     = win_initial\<lparr>timer_period := 0, os_calls := [TimeEndPeriod 5]\<rparr> \<and>
   SDL_TimerResolutionChanged (Ptr 16 ''abc'') (Ptr 16 ''abc'') (win_initial\<lparr>timer_period := 5\<rparr>)
     = win_initial\<lparr>timer_period := 5\<rparr>"
proof -
  have p10: "SDL_atoi ''10'' = 10" and p5: "hint_period (Ptr 16 ''5'') = 5"
    and pabc: "hint_period (Ptr 16 ''abc'') = 0" "hint_period (Ptr 32 ''abc'') = 0"
    and pnull: "hint_period NULL = 1"
    by (simp_all add: hint_period_def SDL_atoi_def is_digit_def is_space_def)
  have set5: "SDL_SetSystemTimerResolution 5 (win_initial\<lparr>timer_period := 1\<rparr>)
      = win_initial\<lparr>timer_period := 5, os_calls := [TimeEndPeriod 1, TimeBeginPeriod 5]\<rparr>"
    and set1: "SDL_SetSystemTimerResolution 1 win_initial
      = win_initial\<lparr>timer_period := 1, os_calls := [TimeBeginPeriod 1]\<rparr>"
    and set0: "SDL_SetSystemTimerResolution 0 (win_initial\<lparr>timer_period := 5\<rparr>)
      = win_initial\<lparr>timer_period := 0, os_calls := [TimeEndPeriod 5]\<rparr>"
    by (simp_all add: SDL_SetSystemTimerResolution_def timeEndPeriod_def timeBeginPeriod_def
          win_initial_def)
  show ?thesis
    using SDL_TimerResolutionChanged_request
            [of 16 "''10''" "Ptr 16 ''5''" NULL "win_initial\<lparr>timer_period := 1\<rparr>"]
          SDL_TimerResolutionChanged_request [of 16 "''10''" NULL NULL win_initial]
          SDL_TimerResolutionChanged_request
            [of 16 "''10''" "Ptr 32 ''abc''" "Ptr 16 ''5''" "win_initial\<lparr>timer_period := 5\<rparr>"]
          SDL_TimerResolutionChanged_request
            [of 16 "''10''" "Ptr 16 ''abc''" "Ptr 16 ''abc''" "win_initial\<lparr>timer_period := 5\<rparr>"]
          p10 p5 pabc pnull set5 set1 set0
    by simp
qed

subsection \<open>Lazy initialisation\<close>

text \<open>
  The claim that every public query initialises fails on the Windows branch: from the
  state at program start, \<^verbatim>\<open>SDL_GetPerformanceCounter\<close> with a working
  \<^verbatim>\<open>QueryPerformanceCounter\<close>, and \<^verbatim>\<open>SDL_GetPerformanceFrequency\<close>, return with the state
  unchanged and \<^verbatim>\<open>ticks_started\<close> still false.
\<close>

theorem lazy_initialisation_counterexample:
  "SDL_GetPerformanceCounter_win (win_env0\<lparr>perf_QueryPerformanceCounter := Some 42\<rparr>) win_initial
     = Inr (42, win_initial) \<and>
   SDL_GetPerformanceFrequency_win
       (win_env0\<lparr>perf_QueryPerformanceFrequency := Some 10000000\<rparr>) win_initial
     = (10000000, win_initial) \<and>
   \<not> ticks_started_win win_initial"
  by (simp add: SDL_GetPerformanceCounter_win_def SDL_GetPerformanceFrequency_win_def
        win_env0_def win_initial_def)

text \<open>
  Claim C8, as amended.  On the POSIX branch each of \<^verbatim>\<open>SDL_GetTicks\<close>,
  \<^verbatim>\<open>SDL_GetPerformanceCounter\<close> and \<^verbatim>\<open>SDL_GetPerformanceFrequency\<close> leaves a started state
  as it is and takes a state that is not started to the state \<^verbatim>\<open>SDL_TicksInit\<close> gives, so
  \<^verbatim>\<open>ticks_started\<close> holds after each.  On the Windows branch \<^verbatim>\<open>SDL_GetTicks\<close>, when it
  returns, does the same; \<^verbatim>\<open>SDL_GetPerformanceCounter\<close> does so only when
  \<^verbatim>\<open>QueryPerformanceCounter\<close> fails (it then calls \<^verbatim>\<open>SDL_GetTicks\<close>), and returns the state
  unchanged when the query succeeds; \<^verbatim>\<open>SDL_GetPerformanceFrequency\<close> never changes the
  state.
\<close>

theorem lazy_initialisation:
  "snd (SDL_GetTicks_posix e p) = (if ticks_started p then p else SDL_TicksInit_posix e p) \<and>
   snd (SDL_GetPerformanceCounter_posix e p)
     = (if ticks_started p then p else SDL_TicksInit_posix e p) \<and>
   snd (SDL_GetPerformanceFrequency_posix e p)
     = (if ticks_started p then p else SDL_TicksInit_posix e p) \<and>
   ticks_started (snd (SDL_GetTicks_posix e p)) \<and>
   ticks_started (snd (SDL_GetPerformanceCounter_posix e p)) \<and>
   ticks_started (snd (SDL_GetPerformanceFrequency_posix e p)) \<and>
   (SDL_GetTicks_win we w = Inr (t, w') \<longrightarrow>
      ticks_started_win w' \<and> w' = (if ticks_started_win w then w else SDL_TicksInit_win we w)) \<and>
   (perf_QueryPerformanceCounter we = None \<and> SDL_GetPerformanceCounter_win we w = Inr (c, w')
      \<longrightarrow> ticks_started_win w'
          \<and> w' = (if ticks_started_win w then w else SDL_TicksInit_win we w)) \<and>
   (perf_QueryPerformanceCounter we = Some c \<longrightarrow>
      SDL_GetPerformanceCounter_win we w = Inr (c, w)) \<and>
   snd (SDL_GetPerformanceFrequency_win we w) = w"
proof -
  have posix: "snd (SDL_GetTicks_posix e p) = (if ticks_started p then p else SDL_TicksInit_posix e p)"
      "snd (SDL_GetPerformanceCounter_posix e p)
         = (if ticks_started p then p else SDL_TicksInit_posix e p)"
      "snd (SDL_GetPerformanceFrequency_posix e p)
         = (if ticks_started p then p else SDL_TicksInit_posix e p)"
    by (simp_all add: SDL_GetTicks_posix_def SDL_GetPerformanceCounter_posix_def
          SDL_GetPerformanceFrequency_posix_def Let_def)
  have ticks: "ticks_started_win w' \<and> w' = (if ticks_started_win w then w else SDL_TicksInit_win we w)"
    if "SDL_GetTicks_win we w = Inr (t, w')" for t w'
    using SDL_GetTicks_win_state [OF that] by simp
  have counter_none: "ticks_started_win w' \<and> w' = (if ticks_started_win w then w else SDL_TicksInit_win we w)"
    if "perf_QueryPerformanceCounter we = None" "SDL_GetPerformanceCounter_win we w = Inr (c, w')"
  proof -
    from that obtain t where "SDL_GetTicks_win we w = Inr (t, w')"
      by (auto simp: SDL_GetPerformanceCounter_win_def split: sum.splits prod.splits)
    then show ?thesis by (rule ticks)
  qed
  have counter_some: "SDL_GetPerformanceCounter_win we w = Inr (c, w)"
    if "perf_QueryPerformanceCounter we = Some c"
    using that by (simp add: SDL_GetPerformanceCounter_win_def)
  have freq: "snd (SDL_GetPerformanceFrequency_win we w) = w"
    by (simp add: SDL_GetPerformanceFrequency_win_def split: option.splits)
  show ?thesis
    using posix ticks counter_none counter_some freq by simp
qed


theorem lazy_initialisation_witness:
  "ticks_started
     (snd (SDL_GetTicks_posix
        (posix_env0\<lparr>init_clock_gettime := Some \<lparr>tv_sec = 10, tv_nsec = 20\<rparr>\<rparr>) posix_initial)) \<and>
   SDL_GetTicks_win (win_env0\<lparr>init_timeGetTime := 500, ticks_timeGetTime := 512\<rparr>) win_initial
     = Inr (12, win_initial\<lparr>ticks_started_win := True, hint_callback_registered := True,
                            start := 500\<rparr>) \<and>
   ticks_started_win (win_initial\<lparr>ticks_started_win := True, hint_callback_registered := True,
                            start := 500\<rparr>) \<and>
   SDL_GetPerformanceCounter_win
       (win_env0\<lparr>init_timeGetTime := 500, ticks_timeGetTime := 512\<rparr>) win_initial
     = Inr (12, win_initial\<lparr>ticks_started_win := True, hint_callback_registered := True,
                            start := 500\<rparr>) \<and>
   SDL_GetPerformanceCounter_win (win_env0\<lparr>perf_QueryPerformanceCounter := Some 42\<rparr>) win_initial
     = Inr (42, win_initial)"
proof -
  let ?we = "win_env0\<lparr>init_timeGetTime := 500, ticks_timeGetTime := 512\<rparr>"
  let ?w1 = "win_initial\<lparr>ticks_started_win := True, hint_callback_registered := True,
                            start := 500\<rparr>"
  have ticks: "SDL_GetTicks_win ?we win_initial = Inr (12, ?w1)"
    by (simp add: SDL_GetTicks_win_def SDL_TicksInit_win_def SDL_AddHintCallback_def
          win_env0_def win_initial_def)
  have none: "perf_QueryPerformanceCounter ?we = None"
    by (simp add: win_env0_def)
  have counter: "SDL_GetPerformanceCounter_win ?we win_initial = Inr (12, ?w1)"
    by (simp add: SDL_GetPerformanceCounter_win_def none ticks)
  have some: "perf_QueryPerformanceCounter (win_env0\<lparr>perf_QueryPerformanceCounter := Some 42\<rparr>)
      = Some 42"
    by simp
  show ?thesis
    using lazy_initialisation
            [of "posix_env0\<lparr>init_clock_gettime := Some \<lparr>tv_sec = 10, tv_nsec = 20\<rparr>\<rparr>"
                posix_initial ?we win_initial 12 ?w1 12]
          lazy_initialisation
            [of posix_env0 posix_initial
                "win_env0\<lparr>perf_QueryPerformanceCounter := Some 42\<rparr>" win_initial 0 win_initial 42]
          ticks none counter some
    by simp
qed

subsection \<open>The performance counter and its frequency\<close>

text \<open>
  The claim that without a high-resolution counter \<^verbatim>\<open>SDL_GetPerformanceCounter\<close> returns
  what \<^verbatim>\<open>SDL_GetTicks\<close> returns fails on the POSIX branch: started without a monotonic
  clock at wall-clock time 100 s, and read 5000 microseconds later, \<^verbatim>\<open>SDL_GetTicks\<close> gives
  5 and \<^verbatim>\<open>SDL_GetPerformanceCounter\<close> gives 100005000.
\<close>

theorem SDL_GetPerformanceCounter_fallback_counterexample:
  "\<not> has_monotonic_time
       (posix_initial\<lparr>ticks_started := True, start_tv := \<lparr>tv_sec' = 100, tv_usec = 0\<rparr>\<rparr>) \<and>
   fst (SDL_GetTicks_posix
          (posix_env0\<lparr>now_gettimeofday := \<lparr>tv_sec' = 100, tv_usec = 5000\<rparr>\<rparr>)
          (posix_initial\<lparr>ticks_started := True, start_tv := \<lparr>tv_sec' = 100, tv_usec = 0\<rparr>\<rparr>))
     = 5 \<and>
   fst (SDL_GetPerformanceCounter_posix
          (posix_env0\<lparr>now_gettimeofday := \<lparr>tv_sec' = 100, tv_usec = 5000\<rparr>\<rparr>)
          (posix_initial\<lparr>ticks_started := True, start_tv := \<lparr>tv_sec' = 100, tv_usec = 0\<rparr>\<rparr>))
     = 100005000 \<and>
   (100005000 :: Uint64) \<noteq> ucast (5 :: Uint32)"
  by (simp add: SDL_GetTicks_posix_def SDL_GetPerformanceCounter_posix_def posix_env0_def
        posix_initial_def signed_divide_int_def)

text \<open>
  Claim C6, as amended.  On the Windows branch \<^verbatim>\<open>SDL_GetPerformanceCounter\<close> returns the
  value \<^verbatim>\<open>QueryPerformanceCounter\<close> stored when that query succeeds, with the state
  unchanged, and otherwise what \<^verbatim>\<open>SDL_GetTicks\<close> returns, widened to 64 bits.  On the POSIX
  branch it returns the reading of the monotonic clock in nanoseconds
  (\<^verbatim>\<open>tv_sec * 1000000000 + tv_nsec\<close>) when \<^verbatim>\<open>has_monotonic_time\<close> is set, and otherwise the
  reading of \<^verbatim>\<open>gettimeofday\<close> in microseconds (\<^verbatim>\<open>tv_sec * 1000000 + tv_usec\<close>); neither
  is relative to the origin, and the second is not the value of \<^verbatim>\<open>SDL_GetTicks\<close>.
\<close>

theorem SDL_GetPerformanceCounter_raw:
  "(perf_QueryPerformanceCounter we = Some c \<longrightarrow>
      SDL_GetPerformanceCounter_win we w = Inr (c, w)) \<and>
   (perf_QueryPerformanceCounter we = None \<longrightarrow>
      SDL_GetPerformanceCounter_win we w
        = (case SDL_GetTicks_win we w of Inl f \<Rightarrow> Inl f | Inr (t, w') \<Rightarrow> Inr (ucast t, w'))) \<and>
   (has_monotonic_time (snd (SDL_GetPerformanceCounter_posix e p)) \<longrightarrow>
      fst (SDL_GetPerformanceCounter_posix e p)
        = word_of_int (tv_sec (now_clock_gettime e)) * 1000000000
          + word_of_int (tv_nsec (now_clock_gettime e))) \<and>
   (\<not> has_monotonic_time (snd (SDL_GetPerformanceCounter_posix e p)) \<longrightarrow>
      fst (SDL_GetPerformanceCounter_posix e p)
        = word_of_int (tv_sec' (now_gettimeofday e)) * 1000000
          + word_of_int (tv_usec (now_gettimeofday e)))"
  by (simp add: SDL_GetPerformanceCounter_win_def SDL_GetPerformanceCounter_posix_def Let_def)


theorem SDL_GetPerformanceCounter_raw_witness:
  "SDL_GetPerformanceCounter_win (win_env0\<lparr>perf_QueryPerformanceCounter := Some 42\<rparr>)
       (win_initial\<lparr>ticks_started_win := True, hires_timer_available := True,
                    hires_ticks_per_second := 10000000, hires_start_ticks := 40\<rparr>)
     = Inr (42, win_initial\<lparr>ticks_started_win := True, hires_timer_available := True,
                    hires_ticks_per_second := 10000000, hires_start_ticks := 40\<rparr>) \<and>
   SDL_GetPerformanceCounter_win (win_env0\<lparr>ticks_timeGetTime := 512\<rparr>)
       (win_initial\<lparr>ticks_started_win := True, start := 500\<rparr>)
     = Inr (12, win_initial\<lparr>ticks_started_win := True, start := 500\<rparr>) \<and>
   fst (SDL_GetPerformanceCounter_posix
          (posix_env0\<lparr>now_clock_gettime := \<lparr>tv_sec = 7, tv_nsec = 5\<rparr>\<rparr>)
          (posix_initial\<lparr>ticks_started := True, has_monotonic_time := True,
                         start_ts := \<lparr>tv_sec = 3, tv_nsec = 0\<rparr>\<rparr>))
     = 7000000005 \<and>
   fst (SDL_GetPerformanceCounter_posix
          (posix_env0\<lparr>now_gettimeofday := \<lparr>tv_sec' = 100, tv_usec = 5000\<rparr>\<rparr>)
          (posix_initial\<lparr>ticks_started := True, start_tv := \<lparr>tv_sec' = 100, tv_usec = 0\<rparr>\<rparr>))
     = 100005000"
proof -
  let ?w = "win_initial\<lparr>ticks_started_win := True, hires_timer_available := True,
                    hires_ticks_per_second := 10000000, hires_start_ticks := 40\<rparr>"
  let ?w2 = "win_initial\<lparr>ticks_started_win := True, start := 500\<rparr>"
  let ?p1 = "posix_initial\<lparr>ticks_started := True, has_monotonic_time := True,
                         start_ts := \<lparr>tv_sec = 3, tv_nsec = 0\<rparr>\<rparr>"
  let ?p2 = "posix_initial\<lparr>ticks_started := True, start_tv := \<lparr>tv_sec' = 100, tv_usec = 0\<rparr>\<rparr>"
  have ticks: "SDL_GetTicks_win (win_env0\<lparr>ticks_timeGetTime := 512\<rparr>) ?w2 = Inr (12, ?w2)"
    by (simp add: SDL_GetTicks_win_def win_env0_def win_initial_def)
  have mono: "has_monotonic_time (snd (SDL_GetPerformanceCounter_posix
          (posix_env0\<lparr>now_clock_gettime := \<lparr>tv_sec = 7, tv_nsec = 5\<rparr>\<rparr>) ?p1))"
    by (simp add: SDL_GetPerformanceCounter_posix_def posix_initial_def)
  have wall: "\<not> has_monotonic_time (snd (SDL_GetPerformanceCounter_posix
          (posix_env0\<lparr>now_gettimeofday := \<lparr>tv_sec' = 100, tv_usec = 5000\<rparr>\<rparr>) ?p2))"
    by (simp add: SDL_GetPerformanceCounter_posix_def posix_initial_def)
  show ?thesis
    using SDL_GetPerformanceCounter_raw
            [of "win_env0\<lparr>perf_QueryPerformanceCounter := Some 42\<rparr>" 42 ?w
                "posix_env0\<lparr>now_clock_gettime := \<lparr>tv_sec = 7, tv_nsec = 5\<rparr>\<rparr>" ?p1]
          SDL_GetPerformanceCounter_raw
            [of "win_env0\<lparr>ticks_timeGetTime := 512\<rparr>" 0 ?w2
                "posix_env0\<lparr>now_gettimeofday := \<lparr>tv_sec' = 100, tv_usec = 5000\<rparr>\<rparr>" ?p2]
          ticks mono wall
    by (simp add: win_env0_def posix_env0_def)
qed

text \<open>
  Claim C7.  \<^verbatim>\<open>SDL_GetPerformanceFrequency\<close> of the Windows branch returns 1000 when
  \<^verbatim>\<open>QueryPerformanceFrequency\<close> fails and the frequency it stored when it succeeds; with
  the operating system keeping its contract the result is positive and belongs to the
  source \<^verbatim>\<open>SDL_GetPerformanceCounter\<close> reads: the frequency of the counter when
  \<^verbatim>\<open>QueryPerformanceCounter\<close> succeeds, and 1000 when the counter falls back to the
  milliseconds of \<^verbatim>\<open>SDL_GetTicks\<close>.  On the POSIX branch it returns 1000000 when
  \<^verbatim>\<open>has_monotonic_time\<close> is not set and 1000000000 when it is, which is positive, and it is
  the amount by which \<^verbatim>\<open>SDL_GetPerformanceCounter\<close> grows when the clocks are read one
  second later.
\<close>

theorem SDL_GetPerformanceFrequency_of_counter:
  "(perf_QueryPerformanceFrequency we = None \<longrightarrow>
      fst (SDL_GetPerformanceFrequency_win we w) = 1000) \<and>
   (perf_QueryPerformanceFrequency we = Some f \<longrightarrow>
      fst (SDL_GetPerformanceFrequency_win we w) = f) \<and>
   (win32_perf_contract we \<longrightarrow>
      0 < fst (SDL_GetPerformanceFrequency_win we w) \<and>
      (case perf_QueryPerformanceCounter we of
         Some c \<Rightarrow>
           SDL_GetPerformanceCounter_win we w = Inr (c, w) \<and>
           perf_QueryPerformanceFrequency we = Some (fst (SDL_GetPerformanceFrequency_win we w))
       | None \<Rightarrow>
           SDL_GetPerformanceCounter_win we w
             = (case SDL_GetTicks_win we w of Inl x \<Rightarrow> Inl x | Inr (t, w') \<Rightarrow> Inr (ucast t, w')) \<and>
           fst (SDL_GetPerformanceFrequency_win we w) = 1000)) \<and>
   (\<not> has_monotonic_time (snd (SDL_GetPerformanceFrequency_posix e p)) \<longrightarrow>
      fst (SDL_GetPerformanceFrequency_posix e p) = 1000000) \<and>
   (has_monotonic_time (snd (SDL_GetPerformanceFrequency_posix e p)) \<longrightarrow>
      fst (SDL_GetPerformanceFrequency_posix e p) = 1000000000) \<and>
   0 < fst (SDL_GetPerformanceFrequency_posix e p) \<and>
   fst (SDL_GetPerformanceCounter_posix (one_second_later e) p)
     - fst (SDL_GetPerformanceCounter_posix e p)
     = fst (SDL_GetPerformanceFrequency_posix e p)"
proof -
  have win_none: "fst (SDL_GetPerformanceFrequency_win we w) = 1000"
    if "perf_QueryPerformanceFrequency we = None"
    using that by (simp add: SDL_GetPerformanceFrequency_win_def)
  have win_some: "fst (SDL_GetPerformanceFrequency_win we w) = f"
    if "perf_QueryPerformanceFrequency we = Some f" for f
    using that by (simp add: SDL_GetPerformanceFrequency_win_def)
  have win_contract: "0 < fst (SDL_GetPerformanceFrequency_win we w) \<and>
      (case perf_QueryPerformanceCounter we of
         Some c \<Rightarrow>
           SDL_GetPerformanceCounter_win we w = Inr (c, w) \<and>
           perf_QueryPerformanceFrequency we = Some (fst (SDL_GetPerformanceFrequency_win we w))
       | None \<Rightarrow>
           SDL_GetPerformanceCounter_win we w
             = (case SDL_GetTicks_win we w of Inl x \<Rightarrow> Inl x | Inr (t, w') \<Rightarrow> Inr (ucast t, w')) \<and>
           fst (SDL_GetPerformanceFrequency_win we w) = 1000)"
    if "win32_perf_contract we"
    using that
    by (auto simp: win32_perf_contract_def SDL_GetPerformanceFrequency_win_def
          SDL_GetPerformanceCounter_win_def word_neq_0_conv [symmetric]
          split: option.splits)
  have posix_freq:
    "fst (SDL_GetPerformanceFrequency_posix e p)
       = (if has_monotonic_time (snd (SDL_GetPerformanceFrequency_posix e p))
          then 1000000000 else 1000000)"
    by (simp add: SDL_GetPerformanceFrequency_posix_def Let_def)
  have posix_step: "fst (SDL_GetPerformanceCounter_posix (one_second_later e) p)
     - fst (SDL_GetPerformanceCounter_posix e p)
     = fst (SDL_GetPerformanceFrequency_posix e p)"
    by (simp add: SDL_GetPerformanceCounter_posix_def SDL_GetPerformanceFrequency_posix_def
          SDL_TicksInit_posix_def one_second_later_def Let_def algebra_simps
          split: option.splits)
  have posix_pos: "0 < fst (SDL_GetPerformanceFrequency_posix e p)"
    by (subst posix_freq) simp
  show ?thesis
    using win_none win_some win_contract posix_freq posix_pos posix_step
    by (simp split: if_splits)
qed


theorem SDL_GetPerformanceFrequency_of_counter_witness:
  "win32_perf_contract win_env0 \<and>
   fst (SDL_GetPerformanceFrequency_win win_env0 win_initial) = 1000 \<and>
   win32_perf_contract
     (win_env0\<lparr>perf_QueryPerformanceCounter := Some 42,
               perf_QueryPerformanceFrequency := Some 10000000\<rparr>) \<and>
   fst (SDL_GetPerformanceFrequency_win
          (win_env0\<lparr>perf_QueryPerformanceCounter := Some 42,
                    perf_QueryPerformanceFrequency := Some 10000000\<rparr>) win_initial)
     = 10000000 \<and>
   (0 :: Uint64) < 10000000 \<and>
   fst (SDL_GetPerformanceFrequency_posix posix_env0 posix_initial) = 1000000 \<and>
   fst (SDL_GetPerformanceFrequency_posix
          (posix_env0\<lparr>init_clock_gettime := Some \<lparr>tv_sec = 10, tv_nsec = 20\<rparr>\<rparr>) posix_initial)
     = 1000000000"
proof -
  let ?we = "win_env0\<lparr>perf_QueryPerformanceCounter := Some 42,
                       perf_QueryPerformanceFrequency := Some 10000000\<rparr>"
  let ?pe = "posix_env0\<lparr>init_clock_gettime := Some \<lparr>tv_sec = 10, tv_nsec = 20\<rparr>\<rparr>"
  have c0: "win32_perf_contract win_env0" and c1: "win32_perf_contract ?we"
    by (simp_all add: win32_perf_contract_def win_env0_def)
  have none: "perf_QueryPerformanceFrequency win_env0 = None"
    and some: "perf_QueryPerformanceFrequency ?we = Some 10000000"
    by (simp_all add: win_env0_def)
  have wall: "\<not> has_monotonic_time (snd (SDL_GetPerformanceFrequency_posix posix_env0 posix_initial))"
    and mono: "has_monotonic_time (snd (SDL_GetPerformanceFrequency_posix ?pe posix_initial))"
    by (simp_all add: SDL_GetPerformanceFrequency_posix_def SDL_TicksInit_posix_def
          posix_env0_def posix_initial_def)
  show ?thesis
    using SDL_GetPerformanceFrequency_of_counter
            [of win_env0 win_initial 0 posix_env0 posix_initial]
          SDL_GetPerformanceFrequency_of_counter [of ?we win_initial 10000000 ?pe posix_initial]
          c0 c1 none some wall mono
    by simp
qed

subsection \<open>The tick counter\<close>

text \<open>
  Claim C2 fails on the high-resolution path of the Windows branch.  With a performance
  counter of 2.5 GHz and the origin at count 250000000000, the reading 9220000000000000 counts
  after the origin (about 42.7 days) is 3688000000 ms, as the claim says.  At
  9223372036854776 counts after the origin, 1348814 ms later and still less than \<open>2^32\<close>
  ms after the origin, the multiplication by 1000 of line 133 leaves the signed 64-bit
  range and \<^verbatim>\<open>SDL_GetTicks\<close> returns 605618482 instead of 3689348814; the wrap-safe
  difference of the two readings is 1212585778 instead of 1348814.
\<close>

theorem SDL_GetTicks_win_multiplication_overflows:
  "SDL_GetTicks_win (win_env0\<lparr>ticks_QueryPerformanceCounter := 9220250000000000\<rparr>)
       (win_initial\<lparr>ticks_started_win := True, hires_timer_available := True,
                    hires_ticks_per_second := 2500000000, hires_start_ticks := 250000000000\<rparr>)
     = Inr (3688000000,
            win_initial\<lparr>ticks_started_win := True, hires_timer_available := True,
                         hires_ticks_per_second := 2500000000, hires_start_ticks := 250000000000\<rparr>) \<and>
   SDL_GetTicks_win (win_env0\<lparr>ticks_QueryPerformanceCounter := 9223622036854776\<rparr>)
       (win_initial\<lparr>ticks_started_win := True, hires_timer_available := True,
                    hires_ticks_per_second := 2500000000, hires_start_ticks := 250000000000\<rparr>)
     = Inr (605618482,
            win_initial\<lparr>ticks_started_win := True, hires_timer_available := True,
                         hires_ticks_per_second := 2500000000, hires_start_ticks := 250000000000\<rparr>) \<and>
   (605618482 - 3688000000 :: Uint32) = 1212585778 \<and>
   ((9220250000000000 - 250000000000) * 1000) div 2500000000 = (3688000000 :: int) \<and>
   ((9223622036854776 - 250000000000) * 1000) div 2500000000 = (3689348814 :: int) \<and>
   (3689348814 :: int) < 2 ^ 32 \<and>
   (3689348814 - 3688000000 :: int) = 1348814 \<and>
   (2 ^ 63 :: int) \<le> (9223622036854776 - 250000000000) * 1000"
  by (simp add: SDL_GetTicks_win_def win_env0_def win_initial_def Let_def divide_traps_def
        sdiv64_def signed_divide_int_def)

lemma wrap_safe_difference:
  fixes a b :: int
  assumes "0 \<le> b - a" "b - a < 2 ^ 32"
  shows "uint ((word_of_int b :: 32 word) - word_of_int a) = b - a"
proof -
  have "(word_of_int b :: 32 word) - word_of_int a = word_of_int (b - a)"
    by simp
  then show ?thesis
    using assms by (simp only: uint_word_of_int take_bit_int_eq_self) simp
qed

text \<open>
  Where \<^verbatim>\<open>long\<close> has 32 bits, the subtraction, multiplication and addition of lines 298
  and 314 are done modulo \<open>2^32\<close>; the result is the one of the arithmetic on \<open>int\<close>
  reduced modulo \<open>2^32\<close>.
\<close>

lemma elapsed_ms_32_bit_long:
  "(word_of_int (elapsed_ms_timespec origin now) :: 32 word)
     = (word_of_int (tv_sec now) - word_of_int (tv_sec origin)) * 1000
       + word_of_int ((tv_nsec now - tv_nsec origin) sdiv 1000000)"
  "(word_of_int (elapsed_ms_timeval origin' now') :: 32 word)
     = (word_of_int (tv_sec' now') - word_of_int (tv_sec' origin')) * 1000
       + word_of_int ((tv_usec now' - tv_usec origin') sdiv 1000)"
  by (simp_all add: elapsed_ms_timespec_def elapsed_ms_timeval_def)

lemma sdiv_within:
  fixes a b :: int
  assumes "0 < b"
  shows "\<bar>a - (a sdiv b) * b\<bar> < b"
proof (cases "0 \<le> a")
  case True
  then have "a sdiv b = a div b"
    using assms by (simp add: signed_divide_int_def sgn_if)
  then have "a - (a sdiv b) * b = a mod b"
    by (simp add: minus_div_mult_eq_mod)
  then show ?thesis using assms by simp
next
  case False
  then have "a sdiv b = - ((- a) div b)"
    using assms by (simp add: signed_divide_int_def sgn_if)
  then have "a - (a sdiv b) * b = - ((- a) mod b)"
    by (simp add: algebra_simps minus_div_mult_eq_mod [symmetric])
  then show ?thesis using assms by simp
qed

text \<open>
  On the POSIX branch \<^verbatim>\<open>SDL_GetTicks\<close> in a started state returns the millisecond count
  reduced modulo \<open>2^32\<close>, and the unsigned difference of two readings whose counts are less
  than \<open>2^32\<close> apart is the difference of the counts, also across the wrap.  The count
  differs from the elapsed time by less than a millisecond (the division truncates towards
  zero).
\<close>

theorem SDL_GetTicks_posix_wrap_safe:
  "(ticks_started p \<longrightarrow>
      SDL_GetTicks_posix e p = (word_of_int (elapsed_ms_posix p e), p)) \<and>
   (ticks_started p \<and> 0 \<le> elapsed_ms_posix p e2 - elapsed_ms_posix p e1
      \<and> elapsed_ms_posix p e2 - elapsed_ms_posix p e1 < 2 ^ 32 \<longrightarrow>
      uint (fst (SDL_GetTicks_posix e2 p) - fst (SDL_GetTicks_posix e1 p))
        = elapsed_ms_posix p e2 - elapsed_ms_posix p e1) \<and>
   \<bar>elapsed_ms_timespec origin now * 1000000
      - ((tv_sec now - tv_sec origin) * 1000000000 + (tv_nsec now - tv_nsec origin))\<bar> < 1000000 \<and>
   \<bar>elapsed_ms_timeval origin' now' * 1000
      - ((tv_sec' now' - tv_sec' origin') * 1000000 + (tv_usec now' - tv_usec origin'))\<bar> < 1000"
proof -
  have ticks: "SDL_GetTicks_posix e p = (word_of_int (elapsed_ms_posix p e), p)"
    if "ticks_started p" for e
    using that
    by (simp add: SDL_GetTicks_posix_def elapsed_ms_posix_def elapsed_ms_timespec_def
          elapsed_ms_timeval_def Let_def)
  have diff: "uint (fst (SDL_GetTicks_posix e2 p) - fst (SDL_GetTicks_posix e1 p))
        = elapsed_ms_posix p e2 - elapsed_ms_posix p e1"
    if "ticks_started p" "0 \<le> elapsed_ms_posix p e2 - elapsed_ms_posix p e1"
      "elapsed_ms_posix p e2 - elapsed_ms_posix p e1 < 2 ^ 32"
    using wrap_safe_difference [OF that(2,3)] by (simp only: ticks [OF that(1)] fst_conv)
  have ns: "\<bar>elapsed_ms_timespec origin now * 1000000
      - ((tv_sec now - tv_sec origin) * 1000000000 + (tv_nsec now - tv_nsec origin))\<bar> < 1000000"
    using sdiv_within [of 1000000 "tv_nsec now - tv_nsec origin"]
    by (simp add: elapsed_ms_timespec_def algebra_simps)
  have us: "\<bar>elapsed_ms_timeval origin' now' * 1000
      - ((tv_sec' now' - tv_sec' origin') * 1000000 + (tv_usec now' - tv_usec origin'))\<bar> < 1000"
    using sdiv_within [of 1000 "tv_usec now' - tv_usec origin'"]
    by (simp add: elapsed_ms_timeval_def algebra_simps)
  show ?thesis
    using ticks diff ns us by blast
qed

theorem SDL_GetTicks_posix_wrap_safe_witness:
  "SDL_GetTicks_posix
     (posix_env0\<lparr>now_clock_gettime := \<lparr>tv_sec = 4294967, tv_nsec = 290000000\<rparr>\<rparr>)
     (posix_initial\<lparr>ticks_started := True, has_monotonic_time := True\<rparr>)
     = (0xFFFFFFFA, posix_initial\<lparr>ticks_started := True, has_monotonic_time := True\<rparr>) \<and>
   SDL_GetTicks_posix
     (posix_env0\<lparr>now_clock_gettime := \<lparr>tv_sec = 4294967, tv_nsec = 300000000\<rparr>\<rparr>)
     (posix_initial\<lparr>ticks_started := True, has_monotonic_time := True\<rparr>)
     = (4, posix_initial\<lparr>ticks_started := True, has_monotonic_time := True\<rparr>) \<and>
   uint (4 - 0xFFFFFFFA :: Uint32) = 10"
proof -
  let ?p = "posix_initial\<lparr>ticks_started := True, has_monotonic_time := True\<rparr>"
  let ?e1 = "posix_env0\<lparr>now_clock_gettime := \<lparr>tv_sec = 4294967, tv_nsec = 290000000\<rparr>\<rparr>"
  let ?e2 = "posix_env0\<lparr>now_clock_gettime := \<lparr>tv_sec = 4294967, tv_nsec = 300000000\<rparr>\<rparr>"
  have started: "ticks_started ?p" by simp
  have ms1: "elapsed_ms_posix ?p ?e1 = 4294967290"
    and ms2: "elapsed_ms_posix ?p ?e2 = 4294967300"
    by (simp_all add: elapsed_ms_posix_def elapsed_ms_timespec_def posix_initial_def posix_env0_def
          signed_divide_int_def)
  note T1 = SDL_GetTicks_posix_wrap_safe [of ?p ?e1 ?e2 ?e1]
  note T2 = SDL_GetTicks_posix_wrap_safe [of ?p ?e2 ?e2 ?e1]
  have t1: "SDL_GetTicks_posix ?e1 ?p = (word_of_int (elapsed_ms_posix ?p ?e1), ?p)"
    using T1 started by blast
  have t2: "SDL_GetTicks_posix ?e2 ?p = (word_of_int (elapsed_ms_posix ?p ?e2), ?p)"
    using T2 started by blast
  have "ticks_started ?p \<and> 0 \<le> elapsed_ms_posix ?p ?e2 - elapsed_ms_posix ?p ?e1
      \<and> elapsed_ms_posix ?p ?e2 - elapsed_ms_posix ?p ?e1 < 2 ^ 32"
    by (simp add: ms1 ms2)
  with T1 have "uint (fst (SDL_GetTicks_posix ?e2 ?p) - fst (SDL_GetTicks_posix ?e1 ?p))
      = elapsed_ms_posix ?p ?e2 - elapsed_ms_posix ?p ?e1"
    by blast
  then have diff: "uint (4 - 0xFFFFFFFA :: Uint32) = 10"
    by (simp add: t1 t2 ms1 ms2)
  from t1 t2 diff show ?thesis
    by (simp add: ms1 ms2)
qed

lemma ucast_word_of_int_64_32:
  "(ucast (word_of_int k :: 64 word) :: 32 word) = word_of_int k"
  by (rule bit_word_eqI) (auto simp add: bit_simps)

lemma sint_diff_in_range:
  fixes a b :: "64 word"
  assumes "- (2 ^ 63) \<le> sint a - sint b" "sint a - sint b < 2 ^ 63"
  shows "sint (a - b) = sint a - sint b"
  using assms by (simp add: sint_word_diff signed_take_bit_int_eq_self)

lemma sint_times_1000_in_range:
  fixes a :: "64 word"
  assumes "- (2 ^ 63) \<le> sint a * 1000" "sint a * 1000 < 2 ^ 63"
  shows "sint (a * 1000) = sint a * 1000"
proof -
  have "sint (1000 :: 64 word) = 1000" by simp
  then show ?thesis
    using assms by (simp add: sint_word_mult signed_take_bit_int_eq_self)
qed

text \<open>
  On the Windows branch the \<^verbatim>\<open>timeGetTime\<close> path returns the difference of two 32-bit
  millisecond readings, and the high-resolution path returns the elapsed counts times 1000
  divided by the frequency, reduced modulo \<open>2^32\<close>, as long as the product stays below
  \<open>2^63\<close>.
\<close>

theorem SDL_GetTicks_win_wrap_safe:
  "(ticks_started_win w \<and> \<not> hires_timer_available w \<longrightarrow>
      SDL_GetTicks_win e w = Inr (ticks_timeGetTime e - start w, w) \<and>
      (ticks_timeGetTime e2 - start w) - (ticks_timeGetTime e1 - start w)
        = ticks_timeGetTime e2 - ticks_timeGetTime e1) \<and>
   (ticks_started_win w \<and> hires_timer_available w
      \<and> 0 < sint (hires_ticks_per_second w)
      \<and> 0 \<le> sint (ticks_QueryPerformanceCounter e) - sint (hires_start_ticks w)
      \<and> (sint (ticks_QueryPerformanceCounter e) - sint (hires_start_ticks w)) * 1000 < 2 ^ 63
      \<longrightarrow>
      SDL_GetTicks_win e w
        = Inr (word_of_int
                 ((sint (ticks_QueryPerformanceCounter e) - sint (hires_start_ticks w)) * 1000
                    div sint (hires_ticks_per_second w)), w))"
proof -
  have low: "SDL_GetTicks_win e w = Inr (ticks_timeGetTime e - start w, w)"
    if "ticks_started_win w" "\<not> hires_timer_available w"
    using that by (simp add: SDL_GetTicks_win_def Let_def)
  have high: "SDL_GetTicks_win e w
        = Inr (word_of_int
                 ((sint (ticks_QueryPerformanceCounter e) - sint (hires_start_ticks w)) * 1000
                    div sint (hires_ticks_per_second w)), w)"
    if started: "ticks_started_win w" "hires_timer_available w"
      and f: "0 < sint (hires_ticks_per_second w)"
      and d: "0 \<le> sint (ticks_QueryPerformanceCounter e) - sint (hires_start_ticks w)"
        "(sint (ticks_QueryPerformanceCounter e) - sint (hires_start_ticks w)) * 1000 < 2 ^ 63"
  proof -
    let ?d = "sint (ticks_QueryPerformanceCounter e) - sint (hires_start_ticks w)"
    let ?f = "hires_ticks_per_second w"
    let ?now1 = "ticks_QueryPerformanceCounter e - hires_start_ticks w"
    from d have "?d < 2 ^ 63" by simp
    with d(1) have now1: "sint ?now1 = ?d"
      by (intro sint_diff_in_range) simp_all
    with d have now2: "sint (?now1 * 1000) = ?d * 1000"
      by (intro sint_times_1000_in_range [THEN trans]) simp_all
    from f have f0: "?f \<noteq> 0" and f1: "?f \<noteq> - 1"
      by auto
    then have no_trap: "\<not> divide_traps (?now1 * 1000) ?f"
      by (simp add: divide_traps_def)
    from d(1) f have "(?d * 1000) sdiv sint ?f = ?d * 1000 div sint ?f"
      by (simp add: signed_divide_int_def sgn_if)
    with now2 have "sdiv64 (?now1 * 1000) ?f = word_of_int (?d * 1000 div sint ?f)"
      by (simp add: sdiv64_def)
    with started no_trap show ?thesis
      by (simp add: SDL_GetTicks_win_def Let_def ucast_word_of_int_64_32)
  qed
  show ?thesis
    using low high by simp
qed

theorem SDL_GetTicks_win_wrap_safe_witness:
  "SDL_GetTicks_win (win_env0\<lparr>ticks_timeGetTime := 0xFFFFFFFA\<rparr>)
       (win_initial\<lparr>ticks_started_win := True, start := 100\<rparr>)
     = Inr (0xFFFFFF96, win_initial\<lparr>ticks_started_win := True, start := 100\<rparr>) \<and>
   SDL_GetTicks_win (win_env0\<lparr>ticks_timeGetTime := 4\<rparr>)
       (win_initial\<lparr>ticks_started_win := True, start := 100\<rparr>)
     = Inr (0xFFFFFFA0, win_initial\<lparr>ticks_started_win := True, start := 100\<rparr>) \<and>
   (0xFFFFFFA0 - 0xFFFFFF96 :: Uint32) = 10 \<and>
   SDL_GetTicks_win (win_env0\<lparr>ticks_QueryPerformanceCounter := 42949673000500\<rparr>)
       (win_initial\<lparr>ticks_started_win := True, hires_timer_available := True,
                    hires_ticks_per_second := 10000000, hires_start_ticks := 500\<rparr>)
     = Inr (4, win_initial\<lparr>ticks_started_win := True, hires_timer_available := True,
                            hires_ticks_per_second := 10000000, hires_start_ticks := 500\<rparr>)"
proof -
  let ?w = "win_initial\<lparr>ticks_started_win := True, start := 100\<rparr>"
  let ?h = "win_initial\<lparr>ticks_started_win := True, hires_timer_available := True,
                    hires_ticks_per_second := 10000000, hires_start_ticks := 500\<rparr>"
  let ?e1 = "win_env0\<lparr>ticks_timeGetTime := 0xFFFFFFFA\<rparr>"
  let ?e2 = "win_env0\<lparr>ticks_timeGetTime := 4\<rparr>"
  let ?e3 = "win_env0\<lparr>ticks_QueryPerformanceCounter := 42949673000500\<rparr>"
  have low: "ticks_started_win ?w \<and> \<not> hires_timer_available ?w"
    by (simp add: win_initial_def)
  have high: "ticks_started_win ?h \<and> hires_timer_available ?h
      \<and> 0 < sint (hires_ticks_per_second ?h)
      \<and> 0 \<le> sint (ticks_QueryPerformanceCounter ?e3) - sint (hires_start_ticks ?h)
      \<and> (sint (ticks_QueryPerformanceCounter ?e3) - sint (hires_start_ticks ?h)) * 1000 < 2 ^ 63"
    by (simp add: win_env0_def)
  have t1: "SDL_GetTicks_win ?e1 ?w = Inr (ticks_timeGetTime ?e1 - start ?w, ?w)"
    using SDL_GetTicks_win_wrap_safe [of ?w ?e1 ?e2 ?e1] low by blast
  have t2: "SDL_GetTicks_win ?e2 ?w = Inr (ticks_timeGetTime ?e2 - start ?w, ?w)"
    using SDL_GetTicks_win_wrap_safe [of ?w ?e2 ?e2 ?e1] low by blast
  have t3: "SDL_GetTicks_win ?e3 ?h
      = Inr (word_of_int
          ((sint (ticks_QueryPerformanceCounter ?e3) - sint (hires_start_ticks ?h)) * 1000
             div sint (hires_ticks_per_second ?h)), ?h)"
    using SDL_GetTicks_win_wrap_safe [of ?h ?e3 ?e3 ?e3] high by blast
  show ?thesis
    using t1 t2 t3 by (simp add: win_env0_def)
qed

subsection \<open>The delay\<close>

lemma SDL_Delay_loop_interrupted:
  "interrupted (nanosleep k tv) \<Longrightarrow>
     SDL_Delay_loop nanosleep k tv reqs
       = SDL_Delay_loop nanosleep (Suc k)
           (case ns_rem (nanosleep k tv) of Some r \<Rightarrow> r | None \<Rightarrow> tv) (reqs @ [tv])"
  by (subst SDL_Delay_loop.simps) (simp add: Let_def)

lemma SDL_Delay_loop_done:
  "\<not> interrupted (nanosleep k tv) \<Longrightarrow> SDL_Delay_loop nanosleep k tv reqs = Some (reqs @ [tv])"
  by (subst SDL_Delay_loop.simps) (simp add: Let_def)

lemma sleep_chain_Cons:
  "interrupted (nanosleep k tv) \<Longrightarrow> sleep_chain nanosleep (Suc k) new \<Longrightarrow>
   hd new = (case ns_rem (nanosleep k tv) of Some r \<Rightarrow> r | None \<Rightarrow> tv) \<Longrightarrow>
   sleep_chain nanosleep k (tv # new)"
  by (cases new) auto

lemma SDL_Delay_loop_terminates:
  assumes "shrinking nanosleep"
  shows "\<exists>new. SDL_Delay_loop nanosleep k tv reqs = Some (reqs @ new)
           \<and> hd new = tv \<and> sleep_chain nanosleep k new"
proof (induction "nat (total_ns tv)" arbitrary: k tv reqs rule: less_induct)
  case less
  show ?case
  proof (cases "interrupted (nanosleep k tv)")
    case False
    then have "SDL_Delay_loop nanosleep k tv reqs = Some (reqs @ [tv])"
      by (rule SDL_Delay_loop_done)
    with False show ?thesis by (intro exI [of _ "[tv]"]) simp
  next
    case True
    with assms obtain r where r: "ns_rem (nanosleep k tv) = Some r"
        "0 \<le> total_ns r" "total_ns r < total_ns tv"
      unfolding shrinking_def by blast
    then have "nat (total_ns r) < nat (total_ns tv)" by simp
    from less [OF this] obtain new where new:
        "SDL_Delay_loop nanosleep (Suc k) r (reqs @ [tv]) = Some ((reqs @ [tv]) @ new)"
        "hd new = r" "sleep_chain nanosleep (Suc k) new"
      by blast
    have "SDL_Delay_loop nanosleep k tv reqs = Some (reqs @ (tv # new))"
      using SDL_Delay_loop_interrupted [of nanosleep k tv reqs] True r(1) new(1) by simp
    moreover have "sleep_chain nanosleep k (tv # new)"
      using True new(2,3) r(1) by (intro sleep_chain_Cons) simp_all
    ultimately show ?thesis by (intro exI [of _ "tv # new"]) simp
  qed
qed

lemma SDL_Delay_loop_returns_not_always_interrupted:
  assumes "SDL_Delay_loop nanosleep k tv reqs = Some out"
  shows "nanosleep \<noteq> nanosleep_always_interrupted"
proof (rule SDL_Delay_loop.raw_induct
         [where P = "\<lambda>nanosleep k tv reqs out. nanosleep \<noteq> nanosleep_always_interrupted",
          OF _ assms])
  fix loop nanosleep k elapsed reqs out
  assume IH: "\<And>nanosleep k elapsed reqs out.
      loop nanosleep k elapsed reqs = Some out \<Longrightarrow> nanosleep \<noteq> nanosleep_always_interrupted"
    and body: "(let tv = elapsed;
          r = nanosleep k tv;
          elapsed' = (case ns_rem r of Some t \<Rightarrow> t | None \<Rightarrow> elapsed);
          reqs' = reqs @ [tv]
      in if interrupted r
         then loop nanosleep (Suc k) elapsed' reqs'
         else Some reqs') = Some out"
  show "nanosleep \<noteq> nanosleep_always_interrupted"
  proof
    assume always: "nanosleep = nanosleep_always_interrupted"
    then have "interrupted (nanosleep k elapsed)"
      by (simp add: nanosleep_always_interrupted_def interrupted_def)
    with body have "loop nanosleep (Suc k)
        (case ns_rem (nanosleep k elapsed) of Some t \<Rightarrow> t | None \<Rightarrow> elapsed) (reqs @ [elapsed])
          = Some out"
      by (simp add: Let_def)
    from IH [OF this] always show False by simp
  qed
qed

lemma SDL_Delay_loop_never_returns:
  "SDL_Delay_loop nanosleep_always_interrupted k tv reqs = None"
  using SDL_Delay_loop_returns_not_always_interrupted [of nanosleep_always_interrupted k tv reqs]
  by (cases "SDL_Delay_loop nanosleep_always_interrupted k tv reqs") auto

lemma SDL_Delay_loop_returns_chain:
  assumes "SDL_Delay_loop nanosleep k tv reqs = Some out"
  shows "\<exists>new. out = reqs @ new \<and> hd new = tv \<and> sleep_chain nanosleep k new"
proof (rule SDL_Delay_loop.raw_induct
         [where P = "\<lambda>nanosleep k tv reqs out.
                       \<exists>new. out = reqs @ new \<and> hd new = tv \<and> sleep_chain nanosleep k new",
          OF _ assms])
  fix loop nanosleep k elapsed reqs out
  assume IH: "\<And>nanosleep k elapsed reqs out.
      loop nanosleep k elapsed reqs = Some out \<Longrightarrow>
        \<exists>new. out = reqs @ new \<and> hd new = elapsed \<and> sleep_chain nanosleep k new"
    and body: "(let tv = elapsed;
          r = nanosleep k tv;
          elapsed' = (case ns_rem r of Some t \<Rightarrow> t | None \<Rightarrow> elapsed);
          reqs' = reqs @ [tv]
      in if interrupted r
         then loop nanosleep (Suc k) elapsed' reqs'
         else Some reqs') = Some out"
  show "\<exists>new. out = reqs @ new \<and> hd new = elapsed \<and> sleep_chain nanosleep k new"
  proof (cases "interrupted (nanosleep k elapsed)")
    case False
    with body have "out = reqs @ [elapsed]" by (simp add: Let_def)
    with False show ?thesis by (intro exI [of _ "[elapsed]"]) simp
  next
    case True
    let ?next = "case ns_rem (nanosleep k elapsed) of Some t \<Rightarrow> t | None \<Rightarrow> elapsed"
    from True body have "loop nanosleep (Suc k) ?next (reqs @ [elapsed]) = Some out"
      by (simp add: Let_def)
    from IH [OF this] obtain new where new: "out = (reqs @ [elapsed]) @ new"
        "hd new = ?next" "sleep_chain nanosleep (Suc k) new"
      by blast
    have "sleep_chain nanosleep k (elapsed # new)"
      using True new(3) new(2) by (rule sleep_chain_Cons)
    with new(1) show ?thesis by (intro exI [of _ "elapsed # new"]) simp
  qed
qed

lemma delay_request_2500: "delay_request 2500 = \<lparr>tv_sec = 2, tv_nsec = 500000000\<rparr>"
  by (simp add: delay_request_def word_div_def word_mod_def)

lemma SDL_Delay_loop_once_interrupted:
  "SDL_Delay_loop nanosleep_once_interrupted 0 \<lparr>tv_sec = 2, tv_nsec = 500000000\<rparr> []
     = Some [\<lparr>tv_sec = 2, tv_nsec = 500000000\<rparr>, \<lparr>tv_sec = 1, tv_nsec = 500000000\<rparr>]"
  apply (subst SDL_Delay_loop.simps)
  apply (simp add: Let_def nanosleep_once_interrupted_def interrupted_def)
  apply (subst SDL_Delay_loop.simps)
  apply (simp add: Let_def nanosleep_once_interrupted_def interrupted_def EINTR_def)
  done

text \<open>
  Claim C3.  In the loop of \<^verbatim>\<open>SDL_Delay\<close> an interrupted \<^verbatim>\<open>nanosleep\<close> (an error return
  with \<^verbatim>\<open>errno == EINTR\<close>) is followed by a call that requests exactly the value the
  interrupted call stored in \<^verbatim>\<open>elapsed\<close>; a call that is not interrupted, whether it
  succeeded or failed with another error, ends the loop.  Every run that returns is such a
  chain of requests starting with the duration computed from \<^verbatim>\<open>ms\<close>.  When the
  interruptions strictly decrease the remaining duration, the call returns.
\<close>

theorem SDL_Delay_retries_with_remainder:
  "(interrupted (nanosleep k tv) \<longrightarrow>
      SDL_Delay_loop nanosleep k tv reqs
        = SDL_Delay_loop nanosleep (Suc k)
            (case ns_rem (nanosleep k tv) of Some r \<Rightarrow> r | None \<Rightarrow> tv) (reqs @ [tv])) \<and>
   (\<not> interrupted (nanosleep k tv) \<longrightarrow>
      SDL_Delay_loop nanosleep k tv reqs = Some (reqs @ [tv])) \<and>
   (SDL_Delay_posix nanosleep ms s = Some (new, s') \<longrightarrow>
      hd new = delay_request ms \<and> sleep_chain nanosleep 0 new) \<and>
   (shrinking nanosleep \<longrightarrow> (\<exists>new. SDL_Delay_posix nanosleep ms s = Some (new, s)))"
proof -
  have returns: "\<exists>new. SDL_Delay_posix nanosleep ms s = Some (new, s)"
    if "shrinking nanosleep"
    using SDL_Delay_loop_terminates [OF that, of 0 "delay_request ms" "[]"]
    by (auto simp: SDL_Delay_posix_def)
  have chain: "hd new = delay_request ms \<and> sleep_chain nanosleep 0 new"
    if "SDL_Delay_posix nanosleep ms s = Some (new, s')"
  proof -
    from that have "SDL_Delay_loop nanosleep 0 (delay_request ms) [] = Some new"
      by (auto simp: SDL_Delay_posix_def split: option.splits)
    from SDL_Delay_loop_returns_chain [OF this] show ?thesis by simp
  qed
  show ?thesis
    using SDL_Delay_loop_interrupted [of nanosleep k tv reqs]
      SDL_Delay_loop_done [of nanosleep k tv reqs] chain returns
    by blast
qed

theorem SDL_Delay_retries_with_remainder_witness:
  "shrinking nanosleep_once_interrupted \<and>
   interrupted (nanosleep_once_interrupted 0 \<lparr>tv_sec = 2, tv_nsec = 500000000\<rparr>) \<and>
   \<not> interrupted (nanosleep_once_interrupted 1 \<lparr>tv_sec = 1, tv_nsec = 500000000\<rparr>) \<and>
   SDL_Delay_loop nanosleep_once_interrupted 0 \<lparr>tv_sec = 2, tv_nsec = 500000000\<rparr> []
     = Some [\<lparr>tv_sec = 2, tv_nsec = 500000000\<rparr>, \<lparr>tv_sec = 1, tv_nsec = 500000000\<rparr>] \<and>
   SDL_Delay_posix nanosleep_once_interrupted 2500 posix_initial
     = Some ([\<lparr>tv_sec = 2, tv_nsec = 500000000\<rparr>, \<lparr>tv_sec = 1, tv_nsec = 500000000\<rparr>],
             posix_initial) \<and>
   sleep_chain nanosleep_once_interrupted 0
     [\<lparr>tv_sec = 2, tv_nsec = 500000000\<rparr>, \<lparr>tv_sec = 1, tv_nsec = 500000000\<rparr>] \<and>
   (\<exists>new. SDL_Delay_posix nanosleep_once_interrupted 2500 posix_initial
             = Some (new, posix_initial))"
proof -
  let ?tv0 = "\<lparr>tv_sec = 2, tv_nsec = 500000000\<rparr>"
  let ?tv1 = "\<lparr>tv_sec = 1, tv_nsec = 500000000\<rparr>"
  have shrinks: "shrinking nanosleep_once_interrupted"
    by (simp add: shrinking_def nanosleep_once_interrupted_def interrupted_def total_ns_def)
  have first: "interrupted (nanosleep_once_interrupted 0 ?tv0)"
    and remainder: "ns_rem (nanosleep_once_interrupted 0 ?tv0) = Some ?tv1"
    and second: "\<not> interrupted (nanosleep_once_interrupted 1 ?tv1)"
    by (simp_all add: nanosleep_once_interrupted_def interrupted_def)
  note T0 = SDL_Delay_retries_with_remainder
      [of nanosleep_once_interrupted 0 ?tv0 "[]" 2500 posix_initial "[?tv0, ?tv1]" posix_initial]
  note T1 = SDL_Delay_retries_with_remainder
      [of nanosleep_once_interrupted "Suc 0" ?tv1 "[?tv0]" 2500 posix_initial]
  have step: "SDL_Delay_loop nanosleep_once_interrupted 0 ?tv0 []
      = SDL_Delay_loop nanosleep_once_interrupted (Suc 0) ?tv1 [?tv0]"
    using T0 first remainder by simp
  have stop: "SDL_Delay_loop nanosleep_once_interrupted (Suc 0) ?tv1 [?tv0] = Some [?tv0, ?tv1]"
    using T1 second by simp
  have loop: "SDL_Delay_loop nanosleep_once_interrupted 0 ?tv0 [] = Some [?tv0, ?tv1]"
    using step stop by simp
  have run: "SDL_Delay_posix nanosleep_once_interrupted 2500 posix_initial
      = Some ([?tv0, ?tv1], posix_initial)"
    by (simp add: SDL_Delay_posix_def delay_request_2500 loop)
  have chain: "sleep_chain nanosleep_once_interrupted 0 [?tv0, ?tv1]"
    using T0 run by blast
  have returns: "\<exists>new. SDL_Delay_posix nanosleep_once_interrupted 2500 posix_initial
             = Some (new, posix_initial)"
    using T0 shrinks by blast
  show ?thesis
    using shrinks first second loop run chain returns by blast
qed

text \<open>
  Claim C10.  \<^verbatim>\<open>SDL_Delay\<close> of the POSIX branch returns the state it was given, and what
  it requests of \<^verbatim>\<open>nanosleep\<close>, and whether it returns, does not depend on the state: a
  run from one state is a run from any other, in particular from the state before and
  the state after \<^verbatim>\<open>SDL_TicksInit\<close>.  It does not initialise.
\<close>

theorem SDL_Delay_posix_frame:
  "(SDL_Delay_posix nanosleep ms s = Some (reqs, s') \<longrightarrow>
      s' = s \<and> SDL_Delay_posix nanosleep ms s0 = Some (reqs, s0)) \<and>
   (SDL_Delay_posix nanosleep ms s = None \<longrightarrow> SDL_Delay_posix nanosleep ms s0 = None) \<and>
   (shrinking nanosleep \<longrightarrow>
      (\<exists>new. SDL_Delay_posix nanosleep ms s = Some (new, s)
         \<and> SDL_Delay_posix nanosleep ms (SDL_TicksInit_posix e s)
             = Some (new, SDL_TicksInit_posix e s)))"
proof -
  have some: "s' = s \<and> SDL_Delay_posix nanosleep ms s0 = Some (reqs, s0)"
    if "SDL_Delay_posix nanosleep ms s = Some (reqs, s')"
    using that by (auto simp: SDL_Delay_posix_def split: option.splits)
  have none: "SDL_Delay_posix nanosleep ms s0 = None"
    if "SDL_Delay_posix nanosleep ms s = None"
    using that by (auto simp: SDL_Delay_posix_def split: option.splits)
  have returns: "\<exists>new. SDL_Delay_posix nanosleep ms s = Some (new, s)
         \<and> SDL_Delay_posix nanosleep ms (SDL_TicksInit_posix e s)
             = Some (new, SDL_TicksInit_posix e s)"
    if "shrinking nanosleep"
    using SDL_Delay_loop_terminates [OF that, of 0 "delay_request ms" "[]"]
    by (auto simp: SDL_Delay_posix_def)
  show ?thesis
    using some none returns by blast
qed

theorem SDL_Delay_posix_frame_witness:
  "SDL_Delay_posix nanosleep_once_interrupted 2500 posix_initial
     = Some ([\<lparr>tv_sec = 2, tv_nsec = 500000000\<rparr>, \<lparr>tv_sec = 1, tv_nsec = 500000000\<rparr>],
             posix_initial) \<and>
   \<not> ticks_started posix_initial \<and>
   SDL_Delay_posix nanosleep_once_interrupted 2500
       (SDL_TicksInit_posix
          (posix_env0\<lparr>init_clock_gettime := Some \<lparr>tv_sec = 10, tv_nsec = 20\<rparr>\<rparr>) posix_initial)
     = Some ([\<lparr>tv_sec = 2, tv_nsec = 500000000\<rparr>, \<lparr>tv_sec = 1, tv_nsec = 500000000\<rparr>],
             SDL_TicksInit_posix
               (posix_env0\<lparr>init_clock_gettime := Some \<lparr>tv_sec = 10, tv_nsec = 20\<rparr>\<rparr>)
               posix_initial) \<and>
   SDL_Delay_posix nanosleep_always_interrupted 2500 posix_initial = None \<and>
   SDL_Delay_posix nanosleep_always_interrupted 2500
       (SDL_TicksInit_posix
          (posix_env0\<lparr>init_clock_gettime := Some \<lparr>tv_sec = 10, tv_nsec = 20\<rparr>\<rparr>) posix_initial)
     = None \<and>
   shrinking nanosleep_once_interrupted"
proof -
  let ?reqs = "[\<lparr>tv_sec = 2, tv_nsec = 500000000\<rparr>, \<lparr>tv_sec = 1, tv_nsec = 500000000\<rparr>]"
  let ?init = "SDL_TicksInit_posix
      (posix_env0\<lparr>init_clock_gettime := Some \<lparr>tv_sec = 10, tv_nsec = 20\<rparr>\<rparr>) posix_initial"
  have run: "SDL_Delay_posix nanosleep_once_interrupted 2500 posix_initial
      = Some (?reqs, posix_initial)"
    by (simp add: SDL_Delay_posix_def delay_request_2500 SDL_Delay_loop_once_interrupted)
  have never: "SDL_Delay_posix nanosleep_always_interrupted 2500 posix_initial = None"
    by (simp add: SDL_Delay_posix_def SDL_Delay_loop_never_returns)
  have shrinks: "shrinking nanosleep_once_interrupted"
    by (simp add: shrinking_def nanosleep_once_interrupted_def interrupted_def total_ns_def)
  have same_run: "SDL_Delay_posix nanosleep_once_interrupted 2500 ?init = Some (?reqs, ?init)"
    using SDL_Delay_posix_frame
            [of nanosleep_once_interrupted 2500 posix_initial ?reqs posix_initial ?init]
          run
    by blast
  have same_never: "SDL_Delay_posix nanosleep_always_interrupted 2500 ?init = None"
    using SDL_Delay_posix_frame
            [of nanosleep_always_interrupted 2500 posix_initial ?reqs posix_initial ?init]
          never
    by blast
  show ?thesis
    using run same_run never same_never shrinks by (simp add: posix_initial_def)
qed

text \<open>The Windows \<^verbatim>\<open>SDL_Delay\<close>, in contrast, initialises before it sleeps (lines 190 to
  192).\<close>

lemma SDL_Delay_win_initialises:
  "ticks_started_win (SDL_Delay_win e ms w)"
  by (simp add: SDL_Delay_win_def Let_def)

end
